theory Spec2Isabelle
  imports Main
begin

section \<open>JavaScript values\<close>

text \<open>
  The repository holds two variants of one server: \<^verbatim>\<open>src/server.js\<close> (single-tenant, one
  configuration) and \<^verbatim>\<open>src/unnamed/part_000\<close> (multi-tenant, a list of pages).  Functions
  that are the same in both (\<^verbatim>\<open>logMessage\<close>, \<^verbatim>\<open>loadKnowledgeFiles\<close>, \<^verbatim>\<open>searchKnowledge\<close>) are
  modelled once; where the two differ the definitions carry the suffix \<open>_st\<close> or \<open>_mt\<close>.

  The servers work on values that come out of \<^verbatim>\<open>JSON.parse\<close>, out of the query string and
  out of their own object literals.  A value is modelled as the JSON tree it is, plus
  \<^verbatim>\<open>undefined\<close>.  Strings are Isabelle strings (ASCII text is one \<open>char\<close> per code unit).
  A number is carried as the text JavaScript prints for it (\<^verbatim>\<open>Number.prototype.toString\<close>,
  e.g. \<open>''0''\<close>, \<open>''42''\<close>, \<open>''-1.5''\<close>): the servers only test numbers for truthiness,
  compare them with \<^verbatim>\<open>===\<close> and convert them to strings.
\<close>

datatype jsval =
    JUndefined
  | JNull
  | JBool bool
  | JNum string
  | JStr string
  | JArr "jsval list"
  | JObj "(string \<times> jsval) list"

text \<open>Exceptions are values: every \<^verbatim>\<open>TypeError\<close> the handlers can raise is a branch.\<close>

datatype js_error = TypeError string

text \<open>\<^verbatim>\<open>if (v)\<close>, \<^verbatim>\<open>!v\<close>, \<^verbatim>\<open>a || b\<close>, \<^verbatim>\<open>a && b\<close>: JavaScript truthiness.\<close>

fun truthy :: "jsval \<Rightarrow> bool" where
  "truthy JUndefined = False"
| "truthy JNull = False"
| "truthy (JBool b) = b"
| "truthy (JNum n) = (n \<noteq> ''0'' \<and> n \<noteq> ''NaN'')"
| "truthy (JStr s) = (s \<noteq> [])"
| "truthy (JArr xs) = True"
| "truthy (JObj kvs) = True"

definition js_or :: "jsval \<Rightarrow> jsval \<Rightarrow> jsval" where
  "js_or a b = (if truthy a then a else b)"

text \<open>
  \<^verbatim>\<open>a === b\<close>.  Primitives compare by value; an array or an object is equal only to
  itself, and the two sides of every \<^verbatim>\<open>===\<close> in the servers come from different parses, so
  arrays and objects never compare equal.
\<close>

fun strict_eq :: "jsval \<Rightarrow> jsval \<Rightarrow> bool" where
  "strict_eq JUndefined JUndefined = True"
| "strict_eq JNull JNull = True"
| "strict_eq (JBool a) (JBool b) = (a = b)"
| "strict_eq (JNum a) (JNum b) = (a = b \<and> a \<noteq> ''NaN'')"
| "strict_eq (JStr a) (JStr b) = (a = b)"
| "strict_eq a b = False"

text \<open>
  \<^verbatim>\<open>v.k\<close> on a value that is neither \<^verbatim>\<open>undefined\<close> nor \<^verbatim>\<open>null\<close>, for the property names
  the handlers read (none of them is a built-in of String, Array, Number or Boolean, so
  on anything but an object the result is \<^verbatim>\<open>undefined\<close>).
\<close>

fun js_prop :: "jsval \<Rightarrow> string \<Rightarrow> jsval" where
  "js_prop (JObj kvs) k = (case map_of kvs k of None \<Rightarrow> JUndefined | Some v \<Rightarrow> v)"
| "js_prop v k = JUndefined"

text \<open>\<^verbatim>\<open>v.k\<close> in general: reading a property of \<^verbatim>\<open>undefined\<close> or \<^verbatim>\<open>null\<close> throws.\<close>

definition cannot_read :: "string \<Rightarrow> string \<Rightarrow> js_error" where
  "cannot_read what k =
     TypeError (''Cannot read properties of '' @ what @ '' (reading '' @ k @ '')'')"

fun get_prop :: "jsval \<Rightarrow> string \<Rightarrow> js_error + jsval" where
  "get_prop JUndefined k = Inl (cannot_read ''undefined'' k)"
| "get_prop JNull k = Inl (cannot_read ''null'' k)"
| "get_prop v k = Inr (js_prop v k)"

text \<open>\<^verbatim>\<open>v?.k\<close>: optional chaining yields \<^verbatim>\<open>undefined\<close> on \<^verbatim>\<open>undefined\<close> and \<^verbatim>\<open>null\<close>.\<close>

definition opt_prop :: "jsval \<Rightarrow> string \<Rightarrow> jsval" where
  "opt_prop v k = js_prop v k"

text \<open>\<^verbatim>\<open>s.startsWith(p)\<close> on strings.\<close>

definition startsWith :: "string \<Rightarrow> string \<Rightarrow> bool" where
  "startsWith s p = (take (length p) s = p)"

text \<open>
  \<^verbatim>\<open>v.startsWith('***')\<close> on an arbitrary value: only a string has the method, on
  anything else the call throws.
\<close>

fun js_startsWith_mask :: "string \<Rightarrow> jsval \<Rightarrow> js_error + bool" where
  "js_startsWith_mask what (JStr s) = Inr (startsWith s ''***'')"
| "js_startsWith_mask what JUndefined = Inl (cannot_read ''undefined'' ''startsWith'')"
| "js_startsWith_mask what JNull = Inl (cannot_read ''null'' ''startsWith'')"
| "js_startsWith_mask what v = Inl (TypeError (what @ ''.startsWith is not a function''))"

section \<open>The event log (\<^verbatim>\<open>messageLog\<close>, \<^verbatim>\<open>logMessage\<close>)\<close>

record log_entry =
  timestamp :: string
  type :: string
  data :: jsval

text \<open>What a handler does to the outside, in the order it does it.\<close>

datatype fs_target = PagesFile | ConfigFile | KnowledgeDir

datatype effect =
    FsRead fs_target
  | ConsoleLog string jsval
  | ConsoleError string jsval
  | Respond nat jsval
  | AxiosPost string jsval jsval

text \<open>
  The process state a handler threads: the in-memory log buffer (most recent first) and
  the effects so far (oldest first).
\<close>

record world =
  messageLog :: "log_entry list"
  trace :: "effect list"

text \<open>
  \<^verbatim>\<open>logMessage(type, data)\<close>: \<^verbatim>\<open>unshift\<close>, then one \<^verbatim>\<open>pop\<close> when the length exceeds 100, then
  the console line.  The timestamp is \<^verbatim>\<open>new Date().toISOString()\<close>, read from a clock
  \<open>now\<close> at the current position of the run.
\<close>

definition logMessage :: "(nat \<Rightarrow> string) \<Rightarrow> string \<Rightarrow> jsval \<Rightarrow> world \<Rightarrow> world" where
  "logMessage now ty d w =
     (let entry = \<lparr>timestamp = now (length (trace w)), type = ty, data = d\<rparr>;
          unshifted = entry # messageLog w;
          popped = (if length unshifted > 100 then butlast unshifted else unshifted)
      in w\<lparr>messageLog := popped,
            trace := trace w @ [ConsoleLog (''['' @ ty @ '']'') d]\<rparr>)"

text \<open>\<^verbatim>\<open>const messageLog = []\<close> at start-up.\<close>

definition initial_world :: world where
  "initial_world = \<lparr>messageLog = [], trace = []\<rparr>"

text \<open>\<^verbatim>\<open>DELETE /api/logs\<close>: \<^verbatim>\<open>messageLog.length = 0\<close>, then the JSON answer.\<close>

definition delete_logs :: "world \<Rightarrow> world" where
  "delete_logs w =
     w\<lparr>messageLog := [], trace := trace w @ [Respond 200 (JObj [(''success'', JBool True)])]\<rparr>"

text \<open>
  The only two operations of either server that write the buffer, and a run of them from
  start-up.
\<close>

datatype log_op = LogMessage string jsval | DeleteLogs

fun run_log_ops :: "(nat \<Rightarrow> string) \<Rightarrow> log_op list \<Rightarrow> world \<Rightarrow> world" where
  "run_log_ops now [] w = w"
| "run_log_ops now (LogMessage ty d # ops) w = run_log_ops now ops (logMessage now ty d w)"
| "run_log_ops now (DeleteLogs # ops) w = run_log_ops now ops (delete_logs w)"

section \<open>Stored configuration and the management API\<close>

text \<open>What \<^verbatim>\<open>res.status(n).json(v)\<close> / \<^verbatim>\<open>res.json(v)\<close> sends.\<close>

datatype response = Response nat jsval

definition success :: response where
  "success = Response 200 (JObj [(''success'', JBool True)])"

subsection \<open>Multi-tenant: \<^verbatim>\<open>pages.json\<close> and \<^verbatim>\<open>PUT /api/pages/:id\<close>\<close>

text \<open>
  A page object as \<^verbatim>\<open>POST /api/pages\<close> creates it (the source's field \<^verbatim>\<open>id\<close> is \<open>page_id\<close>
  here).  A field the stored object lacks is \<^verbatim>\<open>undefined\<close>.
\<close>

record page =
  page_id :: jsval
  name :: jsval
  verifyToken :: jsval
  pageAccessToken :: jsval
  openrouterKey :: jsval
  aiModel :: jsval
  knowledgeBase :: jsval
  enabled :: jsval
  createdAt :: jsval

text \<open>
  \<^verbatim>\<open>loadPages()\<close>: the parsed file, or \<^verbatim>\<open>[]\<close> when it is missing or does not parse
  (\<open>None\<close>).  \<^verbatim>\<open>savePages(pages)\<close> overwrites the file with \<open>Some pages\<close>.
\<close>

definition loadPages :: "page list option \<Rightarrow> page list" where
  "loadPages store = (case store of None \<Rightarrow> [] | Some pages \<Rightarrow> pages)"

text \<open>\<^verbatim>\<open>xs.findIndex(P)\<close>, with \<open>None\<close> for \<^verbatim>\<open>-1\<close>.\<close>

fun findIndex :: "('a \<Rightarrow> bool) \<Rightarrow> 'a list \<Rightarrow> nat option" where
  "findIndex P [] = None"
| "findIndex P (x # xs) = (if P x then Some 0 else map_option Suc (findIndex P xs))"

text \<open>The guard \<^verbatim>\<open>v && !v.startsWith('***')\<close> of the three secret fields.\<close>

definition put_guard :: "string \<Rightarrow> jsval \<Rightarrow> js_error + bool" where
  "put_guard what v =
     (if truthy v
      then (case js_startsWith_mask what v of Inl e \<Rightarrow> Inl e | Inr masked \<Rightarrow> Inr (\<not> masked))
      else Inr False)"

text \<open>
  The seven conditional assignments to \<^verbatim>\<open>pages[index]\<close>, in the source's order; a
  statement \<^verbatim>\<open>if (c) p.f = v\<close> gives the field the value \<open>if c then v else f p\<close>.  A throw
  leaves the handler before \<^verbatim>\<open>savePages\<close>.
\<close>

definition put_page_fields :: "jsval \<Rightarrow> page \<Rightarrow> js_error + page" where
  "put_page_fields body p0 =
     (let p1 = p0\<lparr>name := (if truthy (js_prop body ''name'') then js_prop body ''name'' else name p0)\<rparr>
      in case put_guard ''verifyToken'' (js_prop body ''verifyToken'') of
           Inl e \<Rightarrow> Inl e
         | Inr g1 \<Rightarrow>
      (let p2 = p1\<lparr>verifyToken := (if g1 then js_prop body ''verifyToken'' else verifyToken p1)\<rparr>
       in case put_guard ''pageAccessToken'' (js_prop body ''pageAccessToken'') of
            Inl e \<Rightarrow> Inl e
          | Inr g2 \<Rightarrow>
       (let p3 = p2\<lparr>pageAccessToken :=
                      (if g2 then js_prop body ''pageAccessToken'' else pageAccessToken p2)\<rparr>
        in case put_guard ''openrouterKey'' (js_prop body ''openrouterKey'') of
             Inl e \<Rightarrow> Inl e
           | Inr g3 \<Rightarrow>
        (let p4 = p3\<lparr>openrouterKey :=
                       (if g3 then js_prop body ''openrouterKey'' else openrouterKey p3)\<rparr>;
             p5 = p4\<lparr>aiModel :=
                       (if truthy (js_prop body ''aiModel'') then js_prop body ''aiModel''
                        else aiModel p4)\<rparr>;
             p6 = p5\<lparr>knowledgeBase :=
                       (if truthy (js_prop body ''knowledgeBase'') then js_prop body ''knowledgeBase''
                        else knowledgeBase p5)\<rparr>;
             p7 = p6\<lparr>enabled :=
                       (if js_prop body ''enabled'' \<noteq> JUndefined then js_prop body ''enabled''
                        else enabled p6)\<rparr>
         in Inr p7))))"

text \<open>
  \<^verbatim>\<open>app.put('/api/pages/:id')\<close>: the answer (or the exception that leaves the handler) and
  the file afterwards.  Destructuring \<^verbatim>\<open>req.body\<close> throws on \<^verbatim>\<open>undefined\<close>.
\<close>

definition put_page :: "string \<Rightarrow> jsval \<Rightarrow> page list option \<Rightarrow> (js_error + response) \<times> page list option" where
  "put_page ident body store =
     (case get_prop body ''name'' of
        Inl e \<Rightarrow> (Inl e, store)
      | Inr _ \<Rightarrow>
     (let pages = loadPages store
      in case findIndex (\<lambda>p. strict_eq (page_id p) (JStr ident)) pages of
           None \<Rightarrow> (Inr (Response 404 (JObj [(''error'', JStr ''Page not found'')])), store)
         | Some index \<Rightarrow>
             (case put_page_fields body (pages ! index) of
                Inl e \<Rightarrow> (Inl e, store)
              | Inr p \<Rightarrow> (Inr success, Some (pages[index := p])))))"

subsection \<open>Single-tenant: \<^verbatim>\<open>config.json\<close> and \<^verbatim>\<open>POST /api/config\<close>\<close>

record config =
  c_verifyToken :: jsval
  c_pageAccessToken :: jsval
  c_openrouterKey :: jsval
  c_aiModel :: jsval

definition default_config :: config where
  "default_config =
     \<lparr>c_verifyToken = JStr '''', c_pageAccessToken = JStr '''', c_openrouterKey = JStr '''',
      c_aiModel = JStr ''openai/gpt-5.2''\<rparr>"

definition loadConfig :: "config option \<Rightarrow> config" where
  "loadConfig store = (case store of None \<Rightarrow> default_config | Some c \<Rightarrow> c)"

text \<open>
  \<^verbatim>\<open>app.post('/api/config')\<close> of \<^verbatim>\<open>src/server.js\<close>.  The three tests are unguarded method
  calls: a field that is missing or not a string throws before \<^verbatim>\<open>saveConfig\<close>.
\<close>

definition post_config :: "jsval \<Rightarrow> config option \<Rightarrow> (js_error + response) \<times> config option" where
  "post_config newConfig store =
     (let currentConfig = loadConfig store
      in case get_prop newConfig ''verifyToken'' of
           Inl e \<Rightarrow> (Inl e, store)
         | Inr vt \<Rightarrow>
      (case js_startsWith_mask ''newConfig.verifyToken'' vt of
           Inl e \<Rightarrow> (Inl e, store)
         | Inr m1 \<Rightarrow>
      (let c1 = currentConfig\<lparr>c_verifyToken := (if \<not> m1 then vt else c_verifyToken currentConfig)\<rparr>
       in case js_startsWith_mask ''newConfig.pageAccessToken'' (js_prop newConfig ''pageAccessToken'') of
            Inl e \<Rightarrow> (Inl e, store)
          | Inr m2 \<Rightarrow>
       (let c2 = c1\<lparr>c_pageAccessToken :=
                      (if \<not> m2 then js_prop newConfig ''pageAccessToken'' else c_pageAccessToken c1)\<rparr>
        in case js_startsWith_mask ''newConfig.openrouterKey'' (js_prop newConfig ''openrouterKey'') of
             Inl e \<Rightarrow> (Inl e, store)
           | Inr m3 \<Rightarrow>
        (let c3 = c2\<lparr>c_openrouterKey :=
                       (if \<not> m3 then js_prop newConfig ''openrouterKey'' else c_openrouterKey c2)\<rparr>;
             c4 = c3\<lparr>c_aiModel := js_prop newConfig ''aiModel''\<rparr>
         in (Inr success, Some c4))))))"

subsection \<open>The three secret fields\<close>

datatype secret_field = VerifyToken | PageAccessToken | OpenrouterKey

fun secret_key :: "secret_field \<Rightarrow> string" where
  "secret_key VerifyToken = ''verifyToken''"
| "secret_key PageAccessToken = ''pageAccessToken''"
| "secret_key OpenrouterKey = ''openrouterKey''"

fun page_secret :: "secret_field \<Rightarrow> page \<Rightarrow> jsval" where
  "page_secret VerifyToken p = verifyToken p"
| "page_secret PageAccessToken p = pageAccessToken p"
| "page_secret OpenrouterKey p = openrouterKey p"

fun config_secret :: "secret_field \<Rightarrow> config \<Rightarrow> jsval" where
  "config_secret VerifyToken c = c_verifyToken c"
| "config_secret PageAccessToken c = c_pageAccessToken c"
| "config_secret OpenrouterKey c = c_openrouterKey c"

text \<open>An incoming value that carries the mask marker.\<close>

fun is_masked :: "jsval \<Rightarrow> bool" where
  "is_masked (JStr s) = startsWith s ''***''"
| "is_masked v = False"

text \<open>
  The six fields of \<^verbatim>\<open>PUT /api/pages/:id\<close> that are assigned under a truthiness guard
  (\<^verbatim>\<open>enabled\<close> is the seventh, under \<^verbatim>\<open>!== undefined\<close>).
\<close>

datatype guarded_field = Name | Secret secret_field | AiModel | KnowledgeBase

fun guarded_key :: "guarded_field \<Rightarrow> string" where
  "guarded_key Name = ''name''"
| "guarded_key (Secret f) = secret_key f"
| "guarded_key AiModel = ''aiModel''"
| "guarded_key KnowledgeBase = ''knowledgeBase''"

fun page_field :: "guarded_field \<Rightarrow> page \<Rightarrow> jsval" where
  "page_field Name p = name p"
| "page_field (Secret f) p = page_secret f p"
| "page_field AiModel p = aiModel p"
| "page_field KnowledgeBase p = knowledgeBase p"

text \<open>A secret of a request is well-typed when it is falsy (absent, empty, ...) or a string.\<close>

fun string_or_falsy :: "jsval \<Rightarrow> bool" where
  "string_or_falsy (JStr s) = True"
| "string_or_falsy v = (\<not> truthy v)"

section \<open>Strings\<close>

text \<open>\<^verbatim>\<open>s.endsWith(t)\<close>, \<^verbatim>\<open>s.includes(t)\<close>, \<^verbatim>\<open>s.split(c)\<close>, \<^verbatim>\<open>xs.join(sep)\<close>, \<^verbatim>\<open>s.replace(t, r)\<close>.\<close>

definition endsWith :: "string \<Rightarrow> string \<Rightarrow> bool" where
  "endsWith s t = (length t \<le> length s \<and> drop (length s - length t) s = t)"

fun str_includes :: "string \<Rightarrow> string \<Rightarrow> bool" where
  "str_includes [] t = (t = [])"
| "str_includes (c # s) t = (startsWith (c # s) t \<or> str_includes s t)"

fun split_on :: "char \<Rightarrow> string \<Rightarrow> string list" where
  "split_on sep [] = ['''']"
| "split_on sep (c # s) =
     (if c = sep then [] # split_on sep s
      else (case split_on sep s of [] \<Rightarrow> [c # ''''] | w # ws \<Rightarrow> (c # w) # ws))"

fun join :: "string \<Rightarrow> string list \<Rightarrow> string" where
  "join sep [] = []"
| "join sep [x] = x"
| "join sep (x # y # ys) = x @ sep @ join sep (y # ys)"

fun replace_first :: "string \<Rightarrow> string \<Rightarrow> string \<Rightarrow> string" where
  "replace_first t r [] = (if t = [] then r else [])"
| "replace_first t r (c # s) =
     (if startsWith (c # s) t then r @ drop (length t) (c # s) else c # replace_first t r s)"

text \<open>
  \<^verbatim>\<open>s.toLowerCase()\<close>: the letters \<open>A\<close> to \<open>Z\<close> go to \<open>a\<close> to \<open>z\<close>; every other \<open>char\<close> of the
  model stays.  A character outside ASCII is carried as the bytes of its UTF-8 encoding,
  as the source files and the JSON on the wire have it; for such text \<open>length\<close> counts
  bytes where JavaScript counts UTF-16 code units, and JavaScript lowercases more letters.
  No proof below depends on what \<open>toLowerCase\<close> does to a character.
\<close>

definition lower_char :: "char \<Rightarrow> char" where
  "lower_char c =
     (let n = (of_char c :: nat) in if 65 \<le> n \<and> n \<le> 90 then char_of (n + 32) else c)"

definition toLowerCase :: "string \<Rightarrow> string" where
  "toLowerCase s = map lower_char s"

fun js_toLowerCase :: "jsval \<Rightarrow> js_error + string" where
  "js_toLowerCase (JStr s) = Inr (toLowerCase s)"
| "js_toLowerCase JUndefined = Inl (cannot_read ''undefined'' ''toLowerCase'')"
| "js_toLowerCase JNull = Inl (cannot_read ''null'' ''toLowerCase'')"
| "js_toLowerCase v = Inl (TypeError ''query.toLowerCase is not a function'')"

text \<open>
  \<^verbatim>\<open>String(v)\<close>, as string concatenation, template literals and \<^verbatim>\<open>String.prototype.includes\<close>
  apply it to their operand.
\<close>

fun js_toString :: "jsval \<Rightarrow> string" where
  "js_toString JUndefined = ''undefined''"
| "js_toString JNull = ''null''"
| "js_toString (JBool b) = (if b then ''true'' else ''false'')"
| "js_toString (JNum n) = n"
| "js_toString (JStr s) = s"
| "js_toString (JArr xs) =
     join '','' (map (\<lambda>x. if x = JUndefined \<or> x = JNull then [] else js_toString x) xs)"
| "js_toString (JObj kvs) = ''[object Object]''"

section \<open>The knowledge store\<close>

text \<open>
  The knowledge directory as \<^verbatim>\<open>readdirSync\<close> lists it: file names in directory order, each
  with its text, or \<open>None\<close> for an entry \<^verbatim>\<open>readFileSync\<close> cannot read.  The directory itself
  is \<open>None\<close> when it cannot be listed.
\<close>

type_synonym dir_listing = "(string \<times> string option) list"

record kb_file =
  kb_name :: string
  content :: string

text \<open>
  \<^verbatim>\<open>loadKnowledgeFiles()\<close>.  The array \<^verbatim>\<open>files\<close> lives outside the \<^verbatim>\<open>try\<close>: a read that throws
  ends the loop and the files pushed so far are returned.
\<close>

fun load_loop :: "dir_listing \<Rightarrow> kb_file list \<Rightarrow> kb_file list" where
  "load_loop [] files = files"
| "load_loop ((file, text) # rest) files =
     (if endsWith file ''.md''
      then (case text of
              None \<Rightarrow> files
            | Some t \<Rightarrow>
                load_loop rest (files @ [\<lparr>kb_name = replace_first ''.md'' '''' file, content = t\<rparr>]))
      else load_loop rest files)"

definition loadKnowledgeFiles :: "dir_listing option \<Rightarrow> kb_file list" where
  "loadKnowledgeFiles dir = (case dir of None \<Rightarrow> [] | Some entries \<Rightarrow> load_loop entries [])"

subsection \<open>\<^verbatim>\<open>searchKnowledge\<close>\<close>

text \<open>\<^verbatim>\<open>words.some(word => word.length > 3 && lowerContent.includes(word))\<close>\<close>

fun some_word :: "string \<Rightarrow> string list \<Rightarrow> bool" where
  "some_word lowerContent [] = False"
| "some_word lowerContent (word # words) =
     ((length word > 3 \<and> str_includes lowerContent word) \<or> some_word lowerContent words)"

definition delimiter :: string where
  "delimiter = [CHR 0x0A, CHR 0x0A] @ ''---'' @ [CHR 0x0A, CHR 0x0A]"

text \<open>
  The \<^verbatim>\<open>for\<close> loop over \<^verbatim>\<open>kbFiles\<close> with the array \<^verbatim>\<open>relevant\<close>.  The query is whatever the
  caller passes: \<^verbatim>\<open>query.toLowerCase()\<close> throws inside the loop when it is not a string.
\<close>

fun search_loop :: "jsval \<Rightarrow> kb_file list \<Rightarrow> string list \<Rightarrow> js_error + string list" where
  "search_loop query [] relevant = Inr relevant"
| "search_loop query (file # rest) relevant =
     (let lowerContent = toLowerCase (content file)
      in case js_toLowerCase query of
           Inl e \<Rightarrow> Inl e
         | Inr lowerQuery \<Rightarrow>
             if str_includes lowerContent lowerQuery \<or>
                some_word lowerContent (split_on CHR '' '' lowerQuery)
             then search_loop query rest (relevant @ [content file])
             else search_loop query rest relevant)"

definition searchKnowledge :: "jsval \<Rightarrow> dir_listing option \<Rightarrow> js_error + string" where
  "searchKnowledge query dir =
     (case search_loop query (loadKnowledgeFiles dir) [] of
        Inl e \<Rightarrow> Inl e
      | Inr relevant \<Rightarrow> Inr (join delimiter relevant))"

text \<open>
  The matching rule in the words of the specification, for comparison with the code: the
  lowercased document contains the lowercased query, or a whitespace-delimited token of
  it that is longer than 3 characters.
\<close>

definition is_whitespace :: "char \<Rightarrow> bool" where
  "is_whitespace c = (c \<in> set [CHR '' '', CHR 0x09, CHR 0x0A, CHR 0x0B, CHR 0x0C, CHR 0x0D])"

fun tokens_from :: "string \<Rightarrow> string \<Rightarrow> string list" where
  "tokens_from cur [] = (if cur = [] then [] else [cur])"
| "tokens_from cur (c # s) =
     (if is_whitespace c
      then (if cur = [] then tokens_from [] s else cur # tokens_from [] s)
      else tokens_from (cur @ [c]) s)"

definition whitespace_tokens :: "string \<Rightarrow> string list" where
  "whitespace_tokens s = tokens_from [] s"

definition spec_document_included :: "string \<Rightarrow> string \<Rightarrow> bool" where
  "spec_document_included query doc =
     (str_includes (toLowerCase doc) (toLowerCase query) \<or>
      list_ex (\<lambda>token. length token > 3 \<and> str_includes (toLowerCase doc) token)
        (whitespace_tokens (toLowerCase query)))"

definition spec_search :: "string \<Rightarrow> string list \<Rightarrow> string" where
  "spec_search query docs = join delimiter (filter (spec_document_included query) docs)"

text \<open>
  The rule the code implements: the tokens are the pieces between single space characters
  (\<^verbatim>\<open>split(' ')\<close>).
\<close>

definition document_included :: "string \<Rightarrow> string \<Rightarrow> bool" where
  "document_included query doc =
     ((\<exists>pre post. toLowerCase doc = pre @ toLowerCase query @ post) \<or>
      (\<exists>token \<in> set (split_on CHR '' '' (toLowerCase query)).
         length token > 3 \<and> (\<exists>pre post. toLowerCase doc = pre @ token @ post)))"

subsection \<open>\<^verbatim>\<open>POST /api/knowledge\<close>\<close>

text \<open>The character class \<^verbatim>\<open>[a-zA-Z0-9-_]\<close> and \<^verbatim>\<open>name.replace(/[^a-zA-Z0-9-_]/g, '')\<close>.\<close>

definition allowed_char :: "char \<Rightarrow> bool" where
  "allowed_char c =
     (let n = (of_char c :: nat)
      in (97 \<le> n \<and> n \<le> 122) \<or> (65 \<le> n \<and> n \<le> 90) \<or> (48 \<le> n \<and> n \<le> 57) \<or>
         c = CHR ''-'' \<or> c = CHR ''_'')"

definition sanitize :: "string \<Rightarrow> string" where
  "sanitize s = filter allowed_char s"

text \<open>
  A path is the list of its segments below the root.  \<^verbatim>\<open>path.join(dir, rel)\<close> for a
  normalised \<open>dir\<close>, with \<open>/\<close> as separator: the segments of \<open>rel\<close> are walked, \<open>.\<close> and
  empty segments dropped and \<open>..\<close> stepping up.
\<close>

type_synonym path = "string list"

definition join_segment :: "path \<Rightarrow> string \<Rightarrow> path" where
  "join_segment p seg =
     (if seg = [] \<or> seg = ''.'' then p else if seg = ''..'' then butlast p else p @ [seg])"

definition path_join :: "path \<Rightarrow> string \<Rightarrow> path" where
  "path_join dir rel = foldl join_segment dir (split_on CHR ''/'' rel)"

text \<open>A path strictly below a directory.\<close>

definition inside_dir :: "path \<Rightarrow> path \<Rightarrow> bool" where
  "inside_dir dir p = (length dir < length p \<and> take (length dir) p = dir)"

text \<open>
  \<^verbatim>\<open>fs.writeFileSync(filePath, data)\<close> accepts a string; any other JSON value is refused
  with a \<^verbatim>\<open>TypeError\<close> before the file is opened.
\<close>

fun write_data :: "jsval \<Rightarrow> js_error + string" where
  "write_data (JStr s) = Inr s"
| "write_data v = Inl (TypeError ''The data argument must be of type string'')"

text \<open>
  \<^verbatim>\<open>app.post('/api/knowledge')\<close> over the file system (a map from paths to file texts),
  with \<open>kdir\<close> the constant \<^verbatim>\<open>KNOWLEDGE_DIR\<close>.
\<close>

definition post_knowledge ::
    "path \<Rightarrow> jsval \<Rightarrow> (path \<rightharpoonup> string) \<Rightarrow> (js_error + response) \<times> (path \<rightharpoonup> string)" where
  "post_knowledge kdir body fs =
     (case get_prop body ''name'' of
        Inl e \<Rightarrow> (Inl e, fs)
      | Inr name' \<Rightarrow>
          if \<not> truthy name'
          then (Inr (Response 400 (JObj [(''error'', JStr ''Name required'')])), fs)
          else (case name' of
                  JStr s \<Rightarrow>
                    (let safeName = sanitize s;
                         filePath = path_join kdir (safeName @ ''.md'')
                     in case write_data (js_or (js_prop body ''content'') (JStr '''')) of
                          Inl e \<Rightarrow> (Inl e, fs)
                        | Inr text \<Rightarrow> (Inr success, fs(filePath \<mapsto> text)))
                | _ \<Rightarrow> (Inl (TypeError ''name.replace is not a function''), fs)))"

section \<open>The environment of a request\<close>

text \<open>
  How an \<^verbatim>\<open>axios.post\<close> ends: it resolves with \<^verbatim>\<open>response.data\<close>, or it rejects with an
  error that carries \<^verbatim>\<open>error.response?.data\<close> (\<^verbatim>\<open>undefined\<close> when there was no response)
  and \<^verbatim>\<open>error.message\<close>.
\<close>

datatype http_outcome = Resolved jsval | Rejected jsval string

text \<open>Multi-tenant global configuration (\<^verbatim>\<open>config.json\<close> of \<^verbatim>\<open>part_000\<close>).\<close>

record global_config =
  defaultAiModel :: jsval
  g_openrouterKey :: jsval

definition loadGlobalConfig :: "global_config option \<Rightarrow> global_config" where
  "loadGlobalConfig store =
     (case store of
        None \<Rightarrow> \<lparr>defaultAiModel = JStr ''openai/gpt-5.2'', g_openrouterKey = JStr ''''\<rparr>
      | Some c \<Rightarrow> c)"

text \<open>
  What a handler reads from outside while it runs: the clock and the outcome of each
  outbound request (both may depend on the position in the run, given as the number of
  effects so far), and the files, which no other request changes during the run.
\<close>

record env =
  clock :: "nat \<Rightarrow> string"
  axios_post :: "nat \<Rightarrow> string \<Rightarrow> jsval \<Rightarrow> jsval \<Rightarrow> http_outcome"
  pages_file :: "page list option"
  global_config_file :: "global_config option"
  config_file :: "config option"
  knowledge_dir :: "dir_listing option"

definition emit :: "effect \<Rightarrow> world \<Rightarrow> world" where
  "emit e w = w\<lparr>trace := trace w @ [e]\<rparr>"

text \<open>
  \<^verbatim>\<open>res.sendStatus(403)\<close>: Express sets the status code and sends the registered status
  message as the body, that is \<^verbatim>\<open>res.status(403).send('Forbidden')\<close>.
\<close>

definition sendStatus_403 :: "world \<Rightarrow> world" where
  "sendStatus_403 w = emit (Respond 403 (JStr ''Forbidden'')) w"

text \<open>The effects a handler added, and the responses among them.\<close>

definition new_effects :: "world \<Rightarrow> world \<Rightarrow> effect list" where
  "new_effects w w' = drop (length (trace w)) (trace w')"

fun is_respond :: "effect \<Rightarrow> bool" where
  "is_respond (Respond status body) = True"
| "is_respond e = False"

definition responses :: "effect list \<Rightarrow> effect list" where
  "responses es = filter is_respond es"

section \<open>Webhook verification (\<^verbatim>\<open>GET /webhook\<close>)\<close>

definition get_webhook_mt :: "env \<Rightarrow> jsval \<Rightarrow> world \<Rightarrow> world" where
  "get_webhook_mt E query w =
     (let mode = js_prop query ''hub.mode'';
          token = js_prop query ''hub.verify_token'';
          challenge = js_prop query ''hub.challenge'';
          w1 = emit (FsRead PagesFile) w;
          pages = loadPages (pages_file E);
          validToken = list_ex (\<lambda>p. strict_eq (verifyToken p) token) pages;
          w2 = logMessage (clock E) ''VERIFY''
                 (JObj [(''mode'', mode), (''tokenMatch'', JBool validToken)]) w1
      in if strict_eq mode (JStr ''subscribe'') \<and> validToken
         then emit (Respond 200 challenge) (emit (ConsoleLog ''WEBHOOK_VERIFIED'' JUndefined) w2)
         else sendStatus_403 (emit (ConsoleLog ''VERIFICATION_FAILED'' JUndefined) w2))"

definition get_webhook_st :: "env \<Rightarrow> jsval \<Rightarrow> world \<Rightarrow> world" where
  "get_webhook_st E query w =
     (let w1 = emit (FsRead ConfigFile) w;
          config = loadConfig (config_file E);
          mode = js_prop query ''hub.mode'';
          token = js_prop query ''hub.verify_token'';
          challenge = js_prop query ''hub.challenge'';
          w2 = logMessage (clock E) ''VERIFY''
                 (JObj [(''mode'', mode),
                        (''tokenMatch'', JBool (strict_eq token (c_verifyToken config)))]) w1
      in if strict_eq mode (JStr ''subscribe'') \<and> strict_eq token (c_verifyToken config)
         then emit (Respond 200 challenge) (emit (ConsoleLog ''WEBHOOK_VERIFIED'' JUndefined) w2)
         else sendStatus_403 (emit (ConsoleLog ''VERIFICATION_FAILED'' JUndefined) w2))"

text \<open>
  The answer in the words of the specification, for comparison with the code: the
  challenge with status 200 when the handshake is accepted, otherwise status 403 with an
  empty body.
\<close>

definition spec_verification_reply :: "bool \<Rightarrow> jsval \<Rightarrow> effect \<Rightarrow> bool" where
  "spec_verification_reply accepted challenge r =
     (if accepted then r = Respond 200 challenge
      else r = Respond 403 JUndefined \<or> r = Respond 403 (JStr []))"

section \<open>The completion client (\<^verbatim>\<open>generateAIResponse\<close>)\<close>

text \<open>The object the client returns: \<^verbatim>\<open>{ response: v }\<close> or \<^verbatim>\<open>{ error: v }\<close>.\<close>

datatype ai_result = ResultResponse jsval | ResultError jsval

fun ai_response :: "ai_result \<Rightarrow> jsval" where
  "ai_response (ResultResponse v) = v"
| "ai_response (ResultError v) = JUndefined"

fun ai_error :: "ai_result \<Rightarrow> jsval" where
  "ai_error (ResultResponse v) = JUndefined"
| "ai_error (ResultError v) = v"

definition newline :: string where
  "newline = [CHR 0x0A]"

definition systemPrompt :: "string \<Rightarrow> string" where
  "systemPrompt kbContext =
     ''You are a helpful customer support bot for a Facebook Page. '' @ newline @
     (if kbContext \<noteq> []
      then ''Use the following knowledge base to answer questions:'' @ newline @ newline @
           kbContext @ newline @ newline
      else []) @ newline @
     ''Guidelines:'' @ newline @
     ''- Be friendly and helpful'' @ newline @
     ''- Keep responses concise'' @ newline @
     ''- If you don'' @ [CHR 0x27] @ ''t know something, say you'' @ [CHR 0x27] @
       ''ll get back to the user'' @ newline @
     ''- Don'' @ [CHR 0x27] @ ''t make up information'' @ newline @
     ''- Always be polite and professional''"

definition completions_url :: string where
  "completions_url = ''https://openrouter.ai/api/v1/chat/completions''"

definition completion_data :: "jsval \<Rightarrow> string \<Rightarrow> jsval \<Rightarrow> jsval" where
  "completion_data model kbContext userMessage =
     JObj [(''model'', model),
           (''messages'',
              JArr [JObj [(''role'', JStr ''system''), (''content'', JStr (systemPrompt kbContext))],
                    JObj [(''role'', JStr ''user''), (''content'', userMessage)]]),
           (''max_tokens'', JNum ''500'')]"

definition completion_config :: "jsval \<Rightarrow> jsval" where
  "completion_config apiKey =
     JObj [(''headers'',
              JObj [(''Authorization'', JStr (''Bearer '' @ js_toString apiKey)),
                    (''Content-Type'', JStr ''application/json''),
                    (''HTTP-Referer'', JStr ''https://webhook.ramilflaviano.art''),
                    (''X-Title'', JStr ''FB Auto-Reply Bot'')]),
           (''timeout'', JNum ''30000'')]"

text \<open>\<^verbatim>\<open>v[0]\<close>\<close>

fun js_first :: "jsval \<Rightarrow> js_error + jsval" where
  "js_first JUndefined = Inl (cannot_read ''undefined'' ''0'')"
| "js_first JNull = Inl (cannot_read ''null'' ''0'')"
| "js_first (JArr xs) = Inr (case xs of [] \<Rightarrow> JUndefined | x # _ \<Rightarrow> x)"
| "js_first (JStr s) = Inr (case s of [] \<Rightarrow> JUndefined | c # _ \<Rightarrow> JStr [c])"
| "js_first v = Inr (js_prop v ''0'')"

text \<open>\<^verbatim>\<open>response.data.choices[0]?.message?.content\<close>\<close>

definition completion_content :: "jsval \<Rightarrow> js_error + jsval" where
  "completion_content d =
     (case get_prop d ''choices'' of
        Inl e \<Rightarrow> Inl e
      | Inr choices \<Rightarrow>
          (case js_first choices of
             Inl e \<Rightarrow> Inl e
           | Inr choice \<Rightarrow> Inr (opt_prop (opt_prop choice ''message'') ''content'')))"

text \<open>
  The \<^verbatim>\<open>catch\<close> block: \<^verbatim>\<open>console.error('AI Error:', error.response?.data || error.message)\<close>
  and \<^verbatim>\<open>return { error: error.response?.data?.error?.message || error.message }\<close>.
\<close>

definition completion_failed :: "jsval \<Rightarrow> string \<Rightarrow> world \<Rightarrow> ai_result \<times> world" where
  "completion_failed rdata msg w =
     (ResultError (js_or (opt_prop (opt_prop rdata ''error'') ''message'') (JStr msg)),
      emit (ConsoleError ''AI Error:'' (js_or rdata (JStr msg))) w)"

text \<open>
  The \<^verbatim>\<open>try\<close> block, the same in both servers: one request, then the first completion or
  the placeholder.  A \<^verbatim>\<open>TypeError\<close> raised while reading the answer lands in the same
  \<^verbatim>\<open>catch\<close>, with no \<^verbatim>\<open>error.response\<close>.
\<close>

definition request_completion ::
    "env \<Rightarrow> jsval \<Rightarrow> jsval \<Rightarrow> jsval \<Rightarrow> string \<Rightarrow> world \<Rightarrow> ai_result \<times> world" where
  "request_completion E model apiKey userMessage kbContext w =
     (let d = completion_data model kbContext userMessage;
          c = completion_config apiKey;
          w1 = emit (AxiosPost completions_url d c) w
      in case axios_post E (length (trace w)) completions_url d c of
           Resolved rdata \<Rightarrow>
             (case completion_content rdata of
                Inr v \<Rightarrow> (ResultResponse (js_or v (JStr ''No response generated'')), w1)
              | Inl (TypeError msg) \<Rightarrow> completion_failed JUndefined msg w1)
         | Rejected rdata msg \<Rightarrow> completion_failed rdata msg w1)"

text \<open>\<^verbatim>\<open>page?.f\<close> for the result of \<^verbatim>\<open>pages.find(...)\<close>.\<close>

definition page_opt :: "(page \<Rightarrow> jsval) \<Rightarrow> page option \<Rightarrow> jsval" where
  "page_opt f p = (case p of None \<Rightarrow> JUndefined | Some q \<Rightarrow> f q)"

definition generateAIResponse_mt ::
    "env \<Rightarrow> jsval \<Rightarrow> string \<Rightarrow> jsval \<Rightarrow> world \<Rightarrow> ai_result \<times> world" where
  "generateAIResponse_mt E userMessage kbContext pageId w =
     (let w1 = emit (FsRead ConfigFile) w;
          config = loadGlobalConfig (global_config_file E);
          w2 = emit (FsRead PagesFile) w1;
          pages = loadPages (pages_file E);
          page = find (\<lambda>p. strict_eq (page_id p) pageId) pages;
          apiKey = js_or (page_opt openrouterKey page) (g_openrouterKey config);
          model = js_or (js_or (page_opt aiModel page) (defaultAiModel config))
                    (JStr ''openai/gpt-5.2'')
      in if \<not> truthy apiKey
         then (ResultError (JStr ''OpenRouter API key not configured for this page''), w2)
         else request_completion E model apiKey userMessage kbContext w2)"

definition generateAIResponse_st ::
    "env \<Rightarrow> jsval \<Rightarrow> string \<Rightarrow> world \<Rightarrow> ai_result \<times> world" where
  "generateAIResponse_st E userMessage kbContext w =
     (let w1 = emit (FsRead ConfigFile) w;
          config = loadConfig (config_file E)
      in if \<not> truthy (c_openrouterKey config)
         then (ResultError (JStr ''OpenRouter API key not configured''), w1)
         else request_completion E (js_or (c_aiModel config) (JStr ''openai/gpt-5.2''))
                (c_openrouterKey config) userMessage kbContext w1)"

text \<open>
  The missing-key result in the words of the specification, for comparison with the code.
\<close>

definition spec_missing_key_result :: ai_result where
  "spec_missing_key_result = ResultError (JStr ''API key not configured'')"

section \<open>The reply dispatcher (\<^verbatim>\<open>sendAutoReply\<close>)\<close>

definition graph_url :: string where
  "graph_url = ''https://graph.facebook.com/v18.0/me/messages''"

definition send_data :: "jsval \<Rightarrow> jsval \<Rightarrow> jsval" where
  "send_data senderId replyText =
     JObj [(''recipient'', JObj [(''id'', senderId)]), (''message'', JObj [(''text'', replyText)])]"

definition send_config :: "jsval \<Rightarrow> jsval" where
  "send_config accessToken =
     JObj [(''params'', JObj [(''access_token'', accessToken)]),
           (''headers'', JObj [(''Content-Type'', JStr ''application/json'')])]"

text \<open>The \<^verbatim>\<open>try\<close>/\<^verbatim>\<open>catch\<close> of \<^verbatim>\<open>sendAutoReply\<close>, the same in both servers.\<close>

definition deliver :: "env \<Rightarrow> jsval \<Rightarrow> jsval \<Rightarrow> jsval \<Rightarrow> world \<Rightarrow> world" where
  "deliver E senderId replyText accessToken w =
     (let d = send_data senderId replyText;
          c = send_config accessToken;
          w1 = emit (AxiosPost graph_url d c) w
      in case axios_post E (length (trace w)) graph_url d c of
           Resolved rdata \<Rightarrow>
             logMessage (clock E) ''SENT'' (JObj [(''senderId'', senderId), (''reply'', replyText)]) w1
         | Rejected rdata msg \<Rightarrow>
             logMessage (clock E) ''ERROR'' (JObj [(''msg'', js_or rdata (JStr msg))]) w1)"

definition not_configured :: "env \<Rightarrow> world \<Rightarrow> world" where
  "not_configured E w =
     logMessage (clock E) ''ERROR'' (JObj [(''msg'', JStr ''PAGE_ACCESS_TOKEN not configured'')]) w"

text \<open>\<^verbatim>\<open>sendAutoReply\<close> of \<^verbatim>\<open>part_000\<close> (multi-tenant): the guard is \<^verbatim>\<open>!pageAccessToken\<close>.\<close>

definition sendAutoReply_mt :: "env \<Rightarrow> jsval \<Rightarrow> jsval \<Rightarrow> jsval \<Rightarrow> world \<Rightarrow> world" where
  "sendAutoReply_mt E senderId replyText accessToken w =
     (if \<not> truthy accessToken then not_configured E w
      else deliver E senderId replyText accessToken w)"

text \<open>
  \<^verbatim>\<open>sendAutoReply\<close> of \<^verbatim>\<open>server.js\<close> (single-tenant): the guard is
  \<^verbatim>\<open>!pageAccessToken || pageAccessToken === 'YOUR_PAGE_ACCESS_TOKEN' ||
  pageAccessToken.startsWith('***')\<close>; the method call throws on a truthy value that is
  not a string.
\<close>

definition sendAutoReply_st ::
    "env \<Rightarrow> jsval \<Rightarrow> jsval \<Rightarrow> jsval \<Rightarrow> world \<Rightarrow> js_error option \<times> world" where
  "sendAutoReply_st E senderId replyText accessToken w =
     (if \<not> truthy accessToken \<or> strict_eq accessToken (JStr ''YOUR_PAGE_ACCESS_TOKEN'')
      then (None, not_configured E w)
      else (case js_startsWith_mask ''pageAccessToken'' accessToken of
              Inl e \<Rightarrow> (Some e, w)
            | Inr masked \<Rightarrow>
                if masked then (None, not_configured E w)
                else (None, deliver E senderId replyText accessToken w)))"

text \<open>The outbound requests among some effects.\<close>

fun is_request :: "effect \<Rightarrow> bool" where
  "is_request (AxiosPost url d c) = True"
| "is_request e = False"

text \<open>The texts dispatched to users: \<^verbatim>\<open>message.text\<close> of each request to the send endpoint.\<close>

fun dispatched :: "effect list \<Rightarrow> jsval list" where
  "dispatched [] = []"
| "dispatched (AxiosPost url d c # es) =
     (if url = graph_url then js_prop (js_prop d ''message'') ''text'' # dispatched es
      else dispatched es)"
| "dispatched (e # es) = dispatched es"

section \<open>Inbound events (\<^verbatim>\<open>POST /webhook\<close>)\<close>

text \<open>\<^verbatim>\<open>for (const x of v)\<close>: arrays and strings are iterable, nothing else in JSON is.\<close>

fun js_iterate :: "jsval \<Rightarrow> js_error + jsval list" where
  "js_iterate (JArr xs) = Inr xs"
| "js_iterate (JStr s) = Inr (map (\<lambda>c. JStr [c]) s)"
| "js_iterate v = Inl (TypeError (js_toString v @ '' is not iterable''))"

text \<open>
  \<^verbatim>\<open>t?.includes(x)\<close>: \<^verbatim>\<open>String.prototype.includes\<close> searches for \<^verbatim>\<open>String(x)\<close>,
  \<^verbatim>\<open>Array.prototype.includes\<close> compares the elements with \<open>x\<close>; any other value that is
  not \<^verbatim>\<open>undefined\<close> or \<^verbatim>\<open>null\<close> has no such method and the call throws.
\<close>

fun js_includes :: "jsval \<Rightarrow> jsval \<Rightarrow> js_error + jsval" where
  "js_includes JUndefined x = Inr JUndefined"
| "js_includes JNull x = Inr JUndefined"
| "js_includes (JStr s) x = Inr (JBool (str_includes s (js_toString x)))"
| "js_includes (JArr xs) x = Inr (JBool (list_ex (\<lambda>y. strict_eq y x) xs))"
| "js_includes v x = Inl (TypeError ''p.pageAccessToken.includes is not a function'')"

text \<open>
  Tenant resolution:
  \<^verbatim>\<open>pages.find(p => p.id === pageId || p.pageAccessToken?.includes(pageId))\<close>.
\<close>

fun find_page :: "jsval \<Rightarrow> page list \<Rightarrow> js_error + page option" where
  "find_page pageId [] = Inr None"
| "find_page pageId (p # ps) =
     (if strict_eq (page_id p) pageId then Inr (Some p)
      else (case js_includes (pageAccessToken p) pageId of
              Inl e \<Rightarrow> Inl e
            | Inr v \<Rightarrow> if truthy v then Inr (Some p) else find_page pageId ps))"

text \<open>The fixed reply sent when the completion client returns an error.\<close>

definition fallback_reply :: jsval where
  "fallback_reply =
     JStr (''Thanks for your message! We'' @ [CHR 0x27] @ ''ll get back to you soon. '' @
           [CHR 0xC3, CHR 0xB0, CHR 0xC5, CHR 0xB8, CHR 0xCB, CHR 0x9C, CHR 0xC5, CHR 0xA0])"

subsection \<open>Multi-tenant\<close>

text \<open>
  The body of the inner loop, for one item of \<^verbatim>\<open>entry.messaging\<close>.  The result is the
  exception that leaves the handler, if any, and the state.
\<close>

definition handle_messaging_mt :: "env \<Rightarrow> page \<Rightarrow> jsval \<Rightarrow> world \<Rightarrow> js_error option \<times> world" where
  "handle_messaging_mt E pageConfig messaging w =
     (case get_prop messaging ''sender'' of
        Inl e \<Rightarrow> (Some e, w)
      | Inr sender \<Rightarrow>
     (case get_prop sender ''id'' of
        Inl e \<Rightarrow> (Some e, w)
      | Inr senderId \<Rightarrow>
     (let message = js_prop messaging ''message''
      in if truthy message \<and> truthy (js_prop message ''text'')
         then
           (let userText = js_prop message ''text'';
                w1 = logMessage (clock E) ''MESSAGE''
                       (JObj [(''page'', name pageConfig), (''senderId'', senderId),
                              (''text'', userText)]) w;
                w2 = emit (FsRead KnowledgeDir) w1
            in case searchKnowledge userText (knowledge_dir E) of
                 Inl e \<Rightarrow> (Some e, w2)
               | Inr kbContext \<Rightarrow>
                   (case generateAIResponse_mt E userText kbContext (page_id pageConfig) w2 of
                      (aiResult, w3) \<Rightarrow>
                        if truthy (ai_response aiResult)
                        then (None, sendAutoReply_mt E senderId (ai_response aiResult)
                                      (pageAccessToken pageConfig) w3)
                        else if truthy (ai_error aiResult)
                        then (None, logMessage (clock E) ''ERROR''
                                      (JObj [(''msg'', ai_error aiResult)])
                                      (sendAutoReply_mt E senderId fallback_reply
                                         (pageAccessToken pageConfig) w3))
                        else (None, w3)))
         else (None, w))))"

fun messaging_loop_mt :: "env \<Rightarrow> page \<Rightarrow> jsval list \<Rightarrow> world \<Rightarrow> js_error option \<times> world" where
  "messaging_loop_mt E pageConfig [] w = (None, w)"
| "messaging_loop_mt E pageConfig (messaging # rest) w =
     (case handle_messaging_mt E pageConfig messaging w of
        (Some e, w') \<Rightarrow> (Some e, w')
      | (None, w') \<Rightarrow> messaging_loop_mt E pageConfig rest w')"

text \<open>The body of the outer loop, for one item of \<^verbatim>\<open>body.entry\<close>.\<close>

definition handle_entry_mt :: "env \<Rightarrow> jsval \<Rightarrow> world \<Rightarrow> js_error option \<times> world" where
  "handle_entry_mt E entry w =
     (case get_prop entry ''id'' of
        Inl e \<Rightarrow> (Some e, w)
      | Inr pageId \<Rightarrow>
     (let w1 = emit (FsRead PagesFile) w;
          pages = loadPages (pages_file E)
      in case find_page pageId pages of
           Inl e \<Rightarrow> (Some e, w1)
         | Inr None \<Rightarrow>
             (None, logMessage (clock E) ''ERROR''
                      (JObj [(''msg'', JStr (''Page not configured: '' @ js_toString pageId))]) w1)
         | Inr (Some pageConfig) \<Rightarrow>
             if \<not> truthy (enabled pageConfig)
             then (None, logMessage (clock E) ''SKIP''
                           (JObj [(''msg'', JStr (''Page disabled: '' @ js_toString (name pageConfig)))])
                           w1)
             else (case js_iterate (js_prop entry ''messaging'') of
                     Inl e \<Rightarrow> (Some e, w1)
                   | Inr items \<Rightarrow> messaging_loop_mt E pageConfig items w1)))"

fun entry_loop_mt :: "env \<Rightarrow> jsval list \<Rightarrow> world \<Rightarrow> js_error option \<times> world" where
  "entry_loop_mt E [] w = (None, w)"
| "entry_loop_mt E (entry # rest) w =
     (case handle_entry_mt E entry w of
        (Some e, w') \<Rightarrow> (Some e, w')
      | (None, w') \<Rightarrow> entry_loop_mt E rest w')"

text \<open>
  \<^verbatim>\<open>app.post('/webhook')\<close> of \<^verbatim>\<open>part_000\<close>.  The handler is an \<^verbatim>\<open>async\<close> function: an exception
  ends it as a rejected promise, after whatever it has already done.
\<close>

definition post_webhook_mt :: "env \<Rightarrow> jsval \<Rightarrow> world \<Rightarrow> js_error option \<times> world" where
  "post_webhook_mt E body w =
     (let w1 = logMessage (clock E) ''RECEIVED'' body w;
          w2 = emit (Respond 200 (JStr ''OK'')) w1
      in case get_prop body ''object'' of
           Inl e \<Rightarrow> (Some e, w2)
         | Inr obj \<Rightarrow>
             if strict_eq obj (JStr ''page'')
             then (case js_iterate (js_prop body ''entry'') of
                     Inl e \<Rightarrow> (Some e, w2)
                   | Inr entries \<Rightarrow> entry_loop_mt E entries w2)
             else (None, w2))"

subsection \<open>Single-tenant\<close>

definition handle_messaging_st :: "env \<Rightarrow> config \<Rightarrow> jsval \<Rightarrow> world \<Rightarrow> js_error option \<times> world" where
  "handle_messaging_st E cfg messaging w =
     (case get_prop messaging ''sender'' of
        Inl e \<Rightarrow> (Some e, w)
      | Inr sender \<Rightarrow>
     (case get_prop sender ''id'' of
        Inl e \<Rightarrow> (Some e, w)
      | Inr senderId \<Rightarrow>
     (let message = js_prop messaging ''message''
      in if truthy message \<and> truthy (js_prop message ''text'')
         then
           (let userText = js_prop message ''text'';
                w1 = logMessage (clock E) ''MESSAGE''
                       (JObj [(''senderId'', senderId), (''text'', userText)]) w;
                w2 = emit (FsRead KnowledgeDir) w1
            in case searchKnowledge userText (knowledge_dir E) of
                 Inl e \<Rightarrow> (Some e, w2)
               | Inr kbContext \<Rightarrow>
                   (case generateAIResponse_st E userText kbContext w2 of
                      (aiResult, w3) \<Rightarrow>
                        if truthy (ai_response aiResult)
                        then sendAutoReply_st E senderId (ai_response aiResult)
                               (c_pageAccessToken cfg) w3
                        else if truthy (ai_error aiResult)
                        then (case sendAutoReply_st E senderId fallback_reply
                                     (c_pageAccessToken cfg) w3 of
                                (Some e, w4) \<Rightarrow> (Some e, w4)
                              | (None, w4) \<Rightarrow>
                                  (None, logMessage (clock E) ''ERROR''
                                           (JObj [(''msg'', ai_error aiResult)]) w4))
                        else (None, w3)))
         else (None, w))))"

fun messaging_loop_st :: "env \<Rightarrow> config \<Rightarrow> jsval list \<Rightarrow> world \<Rightarrow> js_error option \<times> world" where
  "messaging_loop_st E cfg [] w = (None, w)"
| "messaging_loop_st E cfg (messaging # rest) w =
     (case handle_messaging_st E cfg messaging w of
        (Some e, w') \<Rightarrow> (Some e, w')
      | (None, w') \<Rightarrow> messaging_loop_st E cfg rest w')"

definition handle_entry_st :: "env \<Rightarrow> config \<Rightarrow> jsval \<Rightarrow> world \<Rightarrow> js_error option \<times> world" where
  "handle_entry_st E cfg entry w =
     (case get_prop entry ''messaging'' of
        Inl e \<Rightarrow> (Some e, w)
      | Inr messaging \<Rightarrow>
          (case js_iterate messaging of
             Inl e \<Rightarrow> (Some e, w)
           | Inr items \<Rightarrow> messaging_loop_st E cfg items w))"

fun entry_loop_st :: "env \<Rightarrow> config \<Rightarrow> jsval list \<Rightarrow> world \<Rightarrow> js_error option \<times> world" where
  "entry_loop_st E cfg [] w = (None, w)"
| "entry_loop_st E cfg (entry # rest) w =
     (case handle_entry_st E cfg entry w of
        (Some e, w') \<Rightarrow> (Some e, w')
      | (None, w') \<Rightarrow> entry_loop_st E cfg rest w')"

text \<open>
  \<^verbatim>\<open>app.post('/webhook')\<close> of \<^verbatim>\<open>server.js\<close>: the configuration is loaded first, then the
  handler logs and responds.
\<close>

definition post_webhook_st :: "env \<Rightarrow> jsval \<Rightarrow> world \<Rightarrow> js_error option \<times> world" where
  "post_webhook_st E body w =
     (let w0 = emit (FsRead ConfigFile) w;
          cfg = loadConfig (config_file E);
          w1 = logMessage (clock E) ''RECEIVED'' body w0;
          w2 = emit (Respond 200 (JStr ''OK'')) w1
      in case get_prop body ''object'' of
           Inl e \<Rightarrow> (Some e, w2)
         | Inr obj \<Rightarrow>
             if strict_eq obj (JStr ''page'')
             then (case js_iterate (js_prop body ''entry'') of
                     Inl e \<Rightarrow> (Some e, w2)
                   | Inr entries \<Rightarrow> entry_loop_st E cfg entries w2)
             else (None, w2))"

section \<open>Notions used in the statements\<close>

text \<open>
  \<open>w'\<close> continues \<open>w\<close> without sending a response: its trace is that of \<open>w\<close> followed by
  effects none of which is a response.
\<close>

definition quiet :: "world \<Rightarrow> world \<Rightarrow> bool" where
  "quiet w w' = (\<exists>es. trace w' = trace w @ es \<and> filter is_respond es = [])"

text \<open>
  \<open>w'\<close> continues \<open>w\<close> and the texts dispatched to users in between are \<open>ts\<close>, in order.
\<close>

definition dispatches :: "world \<Rightarrow> world \<Rightarrow> jsval list \<Rightarrow> bool" where
  "dispatches w w' ts = (\<exists>es. trace w' = trace w @ es \<and> dispatched es = ts)"

text \<open>
  A credential the single-tenant dispatcher accepts: truthy, not the placeholder and not
  masked.
\<close>

definition usable_credential :: "jsval \<Rightarrow> bool" where
  "usable_credential t =
     (truthy t \<and> t \<noteq> JStr ''YOUR_PAGE_ACCESS_TOKEN'' \<and> \<not> is_masked t)"

section \<open>Example data\<close>

text \<open>
  A configured page, the files of a small installation and an environment in which the
  completion endpoint ends as given and the message-send endpoint accepts every request;
  the concrete instances below are evaluated on them.
\<close>

definition example_page :: page where
  "example_page =
     \<lparr>page_id = JStr ''page_1'', name = JStr ''Shop'', verifyToken = JStr ''T1'',
      pageAccessToken = JStr ''EAAB'', openrouterKey = JStr '''', aiModel = JStr '''',
      knowledgeBase = JArr [], enabled = JBool True,
      createdAt = JStr ''2026-01-01T00:00:00.000Z''\<rparr>"

definition example_env :: "jsval \<Rightarrow> http_outcome \<Rightarrow> env" where
  "example_env key completion =
     \<lparr>clock = (\<lambda>n. ''2026-01-01T00:00:00.000Z''),
      axios_post = (\<lambda>n url d c. if url = completions_url then completion
                                 else Resolved (JObj [(''message_id'', JStr ''m1'')])),
      pages_file = Some [example_page],
      global_config_file = Some \<lparr>defaultAiModel = JStr ''openai/gpt-5.2'', g_openrouterKey = key\<rparr>,
      config_file = Some \<lparr>c_verifyToken = JStr ''T1'', c_pageAccessToken = JStr ''EAAB'',
                          c_openrouterKey = key, c_aiModel = JStr ''''\<rparr>,
      knowledge_dir = Some [(''faq.md'', Some ''Refunds take 30 days'')]\<rparr>"

definition verify_query :: "string \<Rightarrow> jsval" where
  "verify_query token =
     JObj [(''hub.mode'', JStr ''subscribe''), (''hub.verify_token'', JStr token),
           (''hub.challenge'', JStr ''xyz'')]"

text \<open>An inbound text message from a user to the example page.\<close>

definition text_event :: "string \<Rightarrow> string \<Rightarrow> jsval" where
  "text_event pageId t =
     JObj [(''object'', JStr ''page''),
           (''entry'',
              JArr [JObj [(''id'', JStr pageId),
                          (''messaging'',
                             JArr [JObj [(''sender'', JObj [(''id'', JStr ''USER_1'')]),
                                         (''message'', JObj [(''text'', JStr t)])]])]])]"

definition text_item :: "string \<Rightarrow> jsval" where
  "text_item t =
     JObj [(''sender'', JObj [(''id'', JStr ''USER_1'')]), (''message'', JObj [(''text'', JStr t)])]"

definition completion_ok :: "string \<Rightarrow> http_outcome" where
  "completion_ok answer =
     Resolved (JObj [(''choices'',
                      JArr [JObj [(''message'', JObj [(''role'', JStr ''assistant''),
                                                      (''content'', JStr answer)])]])])"

definition completion_rate_limited :: http_outcome where
  "completion_rate_limited =
     Rejected (JObj [(''error'', JObj [(''message'', JStr ''Rate limit exceeded'')])])
       ''Request failed with status code 429''"

section \<open>Properties of the event log\<close>

lemma logMessage_length_le:
  "length (messageLog w) \<le> 100 \<Longrightarrow> length (messageLog (logMessage now ty d w)) \<le> 100"
  by (simp add: logMessage_def Let_def)

lemma run_log_ops_length_le:
  "length (messageLog w) \<le> 100 \<Longrightarrow> length (messageLog (run_log_ops now ops w)) \<le> 100"
proof (induction ops arbitrary: w)
  case Nil
  then show ?case by simp
next
  case (Cons op ops)
  show ?case
  proof (cases op)
    case (LogMessage ty d)
    with Cons show ?thesis by (simp add: logMessage_length_le)
  next
    case DeleteLogs
    with Cons show ?thesis by (simp add: delete_logs_def)
  qed
qed

text \<open>
  C8.  From start-up, after any run of logging operations (and log clearings) the buffer
  holds at most 100 entries; and logging into a buffer of exactly 100 entries puts the new
  entry at the front and drops exactly the last (oldest) one, the other 99 keeping their
  order.
\<close>

theorem C8_log_buffer_bounded:
  "length (messageLog (run_log_ops now ops initial_world)) \<le> 100 \<and>
   (length (messageLog w) = 100 \<longrightarrow>
      messageLog (logMessage now ty d w) =
        \<lparr>timestamp = now (length (trace w)), type = ty, data = d\<rparr> # butlast (messageLog w))"
proof
  show "length (messageLog (run_log_ops now ops initial_world)) \<le> 100"
    by (rule run_log_ops_length_le) (simp add: initial_world_def)
next
  show "length (messageLog w) = 100 \<longrightarrow>
      messageLog (logMessage now ty d w) =
        \<lparr>timestamp = now (length (trace w)), type = ty, data = d\<rparr> # butlast (messageLog w)"
    by (cases "messageLog w") (auto simp: logMessage_def Let_def)
qed

theorem C8_log_buffer_bounded_witness:
  "length (messageLog (run_log_ops (\<lambda>n. ''2026-01-01T00:00:00.000Z'')
       (replicate 101 (LogMessage ''RECEIVED'' JNull)) initial_world)) \<le> 100 \<and>
   length (messageLog \<lparr>messageLog = replicate 100 \<lparr>timestamp = ''t0'', type = ''SENT'', data = JNull\<rparr>,
                       trace = []\<rparr>) = 100 \<and>
   messageLog (logMessage (\<lambda>n. ''2026-01-01T00:00:00.000Z'') ''ERROR'' (JStr ''x'')
       \<lparr>messageLog = replicate 100 \<lparr>timestamp = ''t0'', type = ''SENT'', data = JNull\<rparr>, trace = []\<rparr>) =
     \<lparr>timestamp = ''2026-01-01T00:00:00.000Z'', type = ''ERROR'', data = JStr ''x''\<rparr> #
     replicate 99 \<lparr>timestamp = ''t0'', type = ''SENT'', data = JNull\<rparr>"
  using C8_log_buffer_bounded [of "\<lambda>n. ''2026-01-01T00:00:00.000Z''"
      "replicate 101 (LogMessage ''RECEIVED'' JNull)"
      "\<lparr>messageLog = replicate 100 \<lparr>timestamp = ''t0'', type = ''SENT'', data = JNull\<rparr>, trace = []\<rparr>"
      "''ERROR''" "JStr ''x''"]
  by (simp add: butlast_conv_take)

section \<open>Properties of the management API\<close>

lemma get_prop_Inr: "get_prop v k = Inr x \<Longrightarrow> x = js_prop v k"
  by (cases v) auto

lemma findIndex_Some_less: "findIndex P xs = Some i \<Longrightarrow> i < length xs"
  by (induction xs arbitrary: i) (auto split: if_splits)

lemma put_guard_masked: "is_masked v \<Longrightarrow> put_guard what v = Inr False"
  by (cases v) (auto simp: put_guard_def startsWith_def)

lemma put_guard_typed: "string_or_falsy v \<Longrightarrow> \<exists>g. put_guard what v = Inr g"
  by (cases v) (auto simp: put_guard_def)

lemma put_guard_falsy: "\<not> truthy v \<Longrightarrow> put_guard what v = Inr False"
  by (simp add: put_guard_def)

lemma put_page_fields_guards:
  assumes "put_page_fields body p = Inr p'"
  obtains g1 g2 g3 where
    "put_guard ''verifyToken'' (js_prop body ''verifyToken'') = Inr g1"
    "put_guard ''pageAccessToken'' (js_prop body ''pageAccessToken'') = Inr g2"
    "put_guard ''openrouterKey'' (js_prop body ''openrouterKey'') = Inr g3"
proof -
  from assms obtain g1 where g1: "put_guard ''verifyToken'' (js_prop body ''verifyToken'') = Inr g1"
    by (cases "put_guard ''verifyToken'' (js_prop body ''verifyToken'')")
       (simp_all add: put_page_fields_def Let_def)
  from assms g1 obtain g2 where
    g2: "put_guard ''pageAccessToken'' (js_prop body ''pageAccessToken'') = Inr g2"
    by (cases "put_guard ''pageAccessToken'' (js_prop body ''pageAccessToken'')")
       (simp_all add: put_page_fields_def Let_def)
  from assms g1 g2 obtain g3 where
    g3: "put_guard ''openrouterKey'' (js_prop body ''openrouterKey'') = Inr g3"
    by (cases "put_guard ''openrouterKey'' (js_prop body ''openrouterKey'')")
       (simp_all add: put_page_fields_def Let_def)
  from g1 g2 g3 show thesis by (rule that)
qed

lemma put_page_fields_Inr:
  assumes "put_page_fields body p = Inr p'"
  shows "name p' = (if truthy (js_prop body ''name'') then js_prop body ''name'' else name p)"
    and "verifyToken p' =
          (if put_guard ''verifyToken'' (js_prop body ''verifyToken'') = Inr True
           then js_prop body ''verifyToken'' else verifyToken p)"
    and "pageAccessToken p' =
          (if put_guard ''pageAccessToken'' (js_prop body ''pageAccessToken'') = Inr True
           then js_prop body ''pageAccessToken'' else pageAccessToken p)"
    and "openrouterKey p' =
          (if put_guard ''openrouterKey'' (js_prop body ''openrouterKey'') = Inr True
           then js_prop body ''openrouterKey'' else openrouterKey p)"
    and "aiModel p' = (if truthy (js_prop body ''aiModel'') then js_prop body ''aiModel'' else aiModel p)"
    and "knowledgeBase p' =
          (if truthy (js_prop body ''knowledgeBase'') then js_prop body ''knowledgeBase''
           else knowledgeBase p)"
    and "enabled p' =
          (if js_prop body ''enabled'' \<noteq> JUndefined then js_prop body ''enabled'' else enabled p)"
    and "page_id p' = page_id p" and "createdAt p' = createdAt p"
proof -
  from assms obtain g1 g2 g3 where g:
    "put_guard ''verifyToken'' (js_prop body ''verifyToken'') = Inr g1"
    "put_guard ''pageAccessToken'' (js_prop body ''pageAccessToken'') = Inr g2"
    "put_guard ''openrouterKey'' (js_prop body ''openrouterKey'') = Inr g3"
    by (rule put_page_fields_guards)
  note eq = assms [unfolded put_page_fields_def Let_def g sum.case sum.inject, symmetric]
  show "name p' = (if truthy (js_prop body ''name'') then js_prop body ''name'' else name p)"
    by (subst eq) simp
  show "verifyToken p' =
          (if put_guard ''verifyToken'' (js_prop body ''verifyToken'') = Inr True
           then js_prop body ''verifyToken'' else verifyToken p)"
    by (subst eq) (simp add: g)
  show "pageAccessToken p' =
          (if put_guard ''pageAccessToken'' (js_prop body ''pageAccessToken'') = Inr True
           then js_prop body ''pageAccessToken'' else pageAccessToken p)"
    by (subst eq) (simp add: g)
  show "openrouterKey p' =
          (if put_guard ''openrouterKey'' (js_prop body ''openrouterKey'') = Inr True
           then js_prop body ''openrouterKey'' else openrouterKey p)"
    by (subst eq) (simp add: g)
  show "aiModel p' = (if truthy (js_prop body ''aiModel'') then js_prop body ''aiModel'' else aiModel p)"
    by (subst eq) simp
  show "knowledgeBase p' =
          (if truthy (js_prop body ''knowledgeBase'') then js_prop body ''knowledgeBase''
           else knowledgeBase p)"
    by (subst eq) simp
  show "enabled p' =
          (if js_prop body ''enabled'' \<noteq> JUndefined then js_prop body ''enabled'' else enabled p)"
    by (subst eq) simp
  show "page_id p' = page_id p"
    by (subst eq) simp
  show "createdAt p' = createdAt p"
    by (subst eq) simp
qed

lemma put_page_fields_total:
  assumes "string_or_falsy (js_prop body ''verifyToken'')"
    and "string_or_falsy (js_prop body ''pageAccessToken'')"
    and "string_or_falsy (js_prop body ''openrouterKey'')"
  shows "\<exists>p'. put_page_fields body p = Inr p'"
proof -
  obtain g1 where g1: "put_guard ''verifyToken'' (js_prop body ''verifyToken'') = Inr g1"
    using put_guard_typed [OF assms(1)] by auto
  obtain g2 where g2: "put_guard ''pageAccessToken'' (js_prop body ''pageAccessToken'') = Inr g2"
    using put_guard_typed [OF assms(2)] by auto
  obtain g3 where g3: "put_guard ''openrouterKey'' (js_prop body ''openrouterKey'') = Inr g3"
    using put_guard_typed [OF assms(3)] by auto
  show ?thesis
    unfolding put_page_fields_def Let_def g1 g2 g3 sum.case by (rule exI) (rule refl)
qed

lemma put_page_fields_secret:
  assumes "put_guard (secret_key f) (js_prop body (secret_key f)) = Inr False"
    and "put_page_fields body p = Inr p'"
  shows "page_secret f p' = page_secret f p"
  using assms(1) by (cases f) (simp_all add: put_page_fields_Inr [OF assms(2)])

lemma put_page_fields_guarded:
  assumes "\<not> truthy (js_prop body (guarded_key g))" and "put_page_fields body p = Inr p'"
  shows "page_field g p' = page_field g p"
proof (cases g)
  case (Secret f)
  with assms(1) have "put_guard (secret_key f) (js_prop body (secret_key f)) = Inr False"
    by (simp add: put_guard_falsy)
  with Secret assms(2) show ?thesis
    by (simp add: put_page_fields_secret)
qed (use assms(1) in \<open>simp_all add: put_page_fields_Inr [OF assms(2)]\<close>)

text \<open>
  Whatever \<^verbatim>\<open>PUT /api/pages/:id\<close> answers, a field that the assignments leave alone on
  the addressed page is the same in every stored page afterwards.
\<close>

lemma put_page_frame:
  assumes "\<And>p p'. put_page_fields body p = Inr p' \<Longrightarrow> g p' = g p"
  shows "map g (loadPages (snd (put_page ident body store))) = map g (loadPages store)"
proof (cases "get_prop body ''name''")
  case (Inl e)
  then show ?thesis by (simp add: put_page_def)
next
  case body_ok: (Inr x)
  show ?thesis
  proof (cases "findIndex (\<lambda>p. strict_eq (page_id p) (JStr ident)) (loadPages store)")
    case None
    with body_ok show ?thesis by (simp add: put_page_def)
  next
    case (Some i)
    then have i: "i < length (loadPages store)" by (rule findIndex_Some_less)
    show ?thesis
    proof (cases "put_page_fields body (loadPages store ! i)")
      case (Inl e)
      with body_ok Some show ?thesis by (simp add: put_page_def)
    next
      case (Inr p')
      then have "g p' = g (loadPages store ! i)" by (rule assms)
      with i have "map g ((loadPages store)[i := p']) = map g (loadPages store)"
        by (simp add: map_update list_update_same_conv)
      with body_ok Some Inr show ?thesis by (simp add: put_page_def loadPages_def)
    qed
  qed
qed

lemma post_config_secret:
  assumes "is_masked (js_prop newConfig (secret_key f))"
  shows "config_secret f (loadConfig (snd (post_config newConfig cstore))) =
         config_secret f (loadConfig cstore)"
proof -
  from assms obtain s where s: "js_prop newConfig (secret_key f) = JStr s" "startsWith s ''***''"
    by (cases "js_prop newConfig (secret_key f)") auto
  then have m: "js_startsWith_mask what (js_prop newConfig (secret_key f)) = Inr True" for what
    by simp
  show ?thesis
    using m s
    by (cases f) (auto simp: post_config_def Let_def loadConfig_def split: sum.splits dest!: get_prop_Inr)
qed

text \<open>
  C1.  For each of the three secret fields: when the incoming value of the field begins
  with the mask marker \<open>***\<close>, the stored value of that field is the same after the update
  as before it, in every stored page (\<^verbatim>\<open>PUT /api/pages/:id\<close>, multi-tenant) and in the
  stored configuration (\<^verbatim>\<open>POST /api/config\<close>, single-tenant), whatever the handler
  answers.
\<close>

theorem C1_masked_secret_not_overwritten:
  "(is_masked (js_prop body (secret_key f)) \<longrightarrow>
      map (page_secret f) (loadPages (snd (put_page ident body store))) =
      map (page_secret f) (loadPages store)) \<and>
   (is_masked (js_prop newConfig (secret_key f)) \<longrightarrow>
      config_secret f (loadConfig (snd (post_config newConfig cstore))) =
      config_secret f (loadConfig cstore))"
proof (intro conjI impI)
  assume "is_masked (js_prop body (secret_key f))"
  then have g: "put_guard (secret_key f) (js_prop body (secret_key f)) = Inr False"
    by (rule put_guard_masked)
  show "map (page_secret f) (loadPages (snd (put_page ident body store))) =
      map (page_secret f) (loadPages store)"
    by (rule put_page_frame) (rule put_page_fields_secret [OF g])
next
  assume "is_masked (js_prop newConfig (secret_key f))"
  then show "config_secret f (loadConfig (snd (post_config newConfig cstore))) =
      config_secret f (loadConfig cstore)"
    by (rule post_config_secret)
qed

theorem C1_masked_secret_not_overwritten_witness:
  "is_masked (js_prop (JObj [(''name'', JStr ''Shop''), (''verifyToken'', JStr ''***T1'')])
       (secret_key VerifyToken)) \<and>
   map (page_secret VerifyToken)
     (loadPages (snd (put_page ''page_1''
        (JObj [(''name'', JStr ''Shop''), (''verifyToken'', JStr ''***T1'')])
        (Some [\<lparr>page_id = JStr ''page_1'', name = JStr ''Old'', verifyToken = JStr ''SECRET_T1'',
                pageAccessToken = JStr ''EAAB'', openrouterKey = JStr '''',
                aiModel = JStr ''openai/gpt-5.2'', knowledgeBase = JArr [], enabled = JBool True,
                createdAt = JStr ''2026-01-01T00:00:00.000Z''\<rparr>])))) = [JStr ''SECRET_T1''] \<and>
   is_masked (js_prop (JObj [(''verifyToken'', JStr ''V''), (''pageAccessToken'', JStr ''***AAB''),
                (''openrouterKey'', JStr ''sk-1''), (''aiModel'', JStr ''m'')])
       (secret_key PageAccessToken)) \<and>
   config_secret PageAccessToken
     (loadConfig (snd (post_config
        (JObj [(''verifyToken'', JStr ''V''), (''pageAccessToken'', JStr ''***AAB''),
               (''openrouterKey'', JStr ''sk-1''), (''aiModel'', JStr ''m'')])
        (Some \<lparr>c_verifyToken = JStr ''old'', c_pageAccessToken = JStr ''EAAB'',
               c_openrouterKey = JStr '''', c_aiModel = JStr ''m0''\<rparr>)))) = JStr ''EAAB''"
  using C1_masked_secret_not_overwritten [where
      body = "JObj [(''name'', JStr ''Shop''), (''verifyToken'', JStr ''***T1'')]"
      and f = VerifyToken and ident = "''page_1''"
      and store = "Some [\<lparr>page_id = JStr ''page_1'', name = JStr ''Old'', verifyToken = JStr ''SECRET_T1'',
                pageAccessToken = JStr ''EAAB'', openrouterKey = JStr '''',
                aiModel = JStr ''openai/gpt-5.2'', knowledgeBase = JArr [], enabled = JBool True,
                createdAt = JStr ''2026-01-01T00:00:00.000Z''\<rparr>]"]
    C1_masked_secret_not_overwritten [where
      newConfig = "JObj [(''verifyToken'', JStr ''V''), (''pageAccessToken'', JStr ''***AAB''),
               (''openrouterKey'', JStr ''sk-1''), (''aiModel'', JStr ''m'')]"
      and f = PageAccessToken
      and cstore = "Some \<lparr>c_verifyToken = JStr ''old'', c_pageAccessToken = JStr ''EAAB'',
               c_openrouterKey = JStr '''', c_aiModel = JStr ''m0''\<rparr>"]
  by (simp add: startsWith_def loadPages_def loadConfig_def)

text \<open>
  C10.  In \<^verbatim>\<open>PUT /api/pages/:id\<close>, for each of \<^verbatim>\<open>name\<close>, \<^verbatim>\<open>verifyToken\<close>,
  \<^verbatim>\<open>pageAccessToken\<close>, \<^verbatim>\<open>openrouterKey\<close>, \<^verbatim>\<open>aiModel\<close> and \<^verbatim>\<open>knowledgeBase\<close>: an incoming value
  that is absent or the empty string leaves the stored value of that field unchanged in
  every page.  \<^verbatim>\<open>enabled\<close> is the exception: when the request addresses an existing page
  and its secrets are strings where present, the handler answers success and the stored
  \<^verbatim>\<open>enabled\<close> of the addressed page is the incoming value whenever that is not
  \<^verbatim>\<open>undefined\<close>, \<^verbatim>\<open>false\<close> included.
\<close>

theorem C10_put_page_guards:
  "((js_prop body (guarded_key g) = JUndefined \<or> js_prop body (guarded_key g) = JStr '''') \<longrightarrow>
      map (page_field g) (loadPages (snd (put_page ident body store))) =
      map (page_field g) (loadPages store)) \<and>
   (findIndex (\<lambda>p. strict_eq (page_id p) (JStr ident)) (loadPages store) = Some i \<and>
    string_or_falsy (js_prop body ''verifyToken'') \<and>
    string_or_falsy (js_prop body ''pageAccessToken'') \<and>
    string_or_falsy (js_prop body ''openrouterKey'') \<and>
    js_prop body ''enabled'' \<noteq> JUndefined \<longrightarrow>
      fst (put_page ident body store) = Inr success \<and>
      enabled (loadPages (snd (put_page ident body store)) ! i) = js_prop body ''enabled'')"
proof (intro conjI impI)
  assume "js_prop body (guarded_key g) = JUndefined \<or> js_prop body (guarded_key g) = JStr ''''"
  then have falsy: "\<not> truthy (js_prop body (guarded_key g))" by auto
  show "map (page_field g) (loadPages (snd (put_page ident body store))) =
      map (page_field g) (loadPages store)"
    by (rule put_page_frame) (rule put_page_fields_guarded [OF falsy])
next
  assume a: "findIndex (\<lambda>p. strict_eq (page_id p) (JStr ident)) (loadPages store) = Some i \<and>
    string_or_falsy (js_prop body ''verifyToken'') \<and>
    string_or_falsy (js_prop body ''pageAccessToken'') \<and>
    string_or_falsy (js_prop body ''openrouterKey'') \<and>
    js_prop body ''enabled'' \<noteq> JUndefined"
  then have i: "i < length (loadPages store)" by (blast intro: findIndex_Some_less)
  from a obtain p' where p': "put_page_fields body (loadPages store ! i) = Inr p'"
    using put_page_fields_total by blast
  from a have body: "get_prop body ''name'' = Inr (js_prop body ''name'')"
    by (cases body) auto
  from a body p' have res: "put_page ident body store = (Inr success, Some ((loadPages store)[i := p']))"
    by (simp add: put_page_def)
  from a have "enabled p' = js_prop body ''enabled''"
    by (simp add: put_page_fields_Inr [OF p'])
  with i res show "enabled (loadPages (snd (put_page ident body store)) ! i) = js_prop body ''enabled''"
    by (simp add: loadPages_def)
  from res show "fst (put_page ident body store) = Inr success"
    by simp
qed

theorem C10_put_page_guards_witness:
  "(js_prop (JObj [(''name'', JStr ''''), (''enabled'', JBool False)]) (guarded_key Name) = JStr '''') \<and>
   map (page_field Name)
     (loadPages (snd (put_page ''page_1'' (JObj [(''name'', JStr ''''), (''enabled'', JBool False)])
        (Some [\<lparr>page_id = JStr ''page_1'', name = JStr ''Old'', verifyToken = JStr ''SECRET_T1'',
                pageAccessToken = JStr ''EAAB'', openrouterKey = JStr '''',
                aiModel = JStr ''openai/gpt-5.2'', knowledgeBase = JArr [], enabled = JBool True,
                createdAt = JStr ''2026-01-01T00:00:00.000Z''\<rparr>])))) = [JStr ''Old''] \<and>
   fst (put_page ''page_1'' (JObj [(''name'', JStr ''''), (''enabled'', JBool False)])
        (Some [\<lparr>page_id = JStr ''page_1'', name = JStr ''Old'', verifyToken = JStr ''SECRET_T1'',
                pageAccessToken = JStr ''EAAB'', openrouterKey = JStr '''',
                aiModel = JStr ''openai/gpt-5.2'', knowledgeBase = JArr [], enabled = JBool True,
                createdAt = JStr ''2026-01-01T00:00:00.000Z''\<rparr>])) = Inr success \<and>
   enabled (loadPages (snd (put_page ''page_1'' (JObj [(''name'', JStr ''''), (''enabled'', JBool False)])
        (Some [\<lparr>page_id = JStr ''page_1'', name = JStr ''Old'', verifyToken = JStr ''SECRET_T1'',
                pageAccessToken = JStr ''EAAB'', openrouterKey = JStr '''',
                aiModel = JStr ''openai/gpt-5.2'', knowledgeBase = JArr [], enabled = JBool True,
                createdAt = JStr ''2026-01-01T00:00:00.000Z''\<rparr>]))) ! 0) = JBool False"
  using C10_put_page_guards [where
      body = "JObj [(''name'', JStr ''''), (''enabled'', JBool False)]" and g = Name
      and ident = "''page_1''" and i = 0
      and store = "Some [\<lparr>page_id = JStr ''page_1'', name = JStr ''Old'', verifyToken = JStr ''SECRET_T1'',
                pageAccessToken = JStr ''EAAB'', openrouterKey = JStr '''',
                aiModel = JStr ''openai/gpt-5.2'', knowledgeBase = JArr [], enabled = JBool True,
                createdAt = JStr ''2026-01-01T00:00:00.000Z''\<rparr>]"]
  by (simp add: loadPages_def)

section \<open>Properties of the knowledge matcher\<close>

lemma startsWith_iff: "startsWith s t \<longleftrightarrow> (\<exists>post. s = t @ post)"
proof
  assume "startsWith s t"
  then have "s = t @ drop (length t) s"
    by (metis append_take_drop_id startsWith_def)
  then show "\<exists>post. s = t @ post" ..
next
  assume "\<exists>post. s = t @ post"
  then show "startsWith s t" by (auto simp: startsWith_def)
qed

text \<open>\<open>str_includes\<close> is substring containment.\<close>

lemma str_includes_iff: "str_includes s t \<longleftrightarrow> (\<exists>pre post. s = pre @ t @ post)"
proof (induction s)
  case Nil
  then show ?case by auto
next
  case (Cons c s)
  have "(\<exists>pre post. c # s = pre @ t @ post) \<longleftrightarrow>
        (\<exists>post. c # s = t @ post) \<or> (\<exists>pre post. s = pre @ t @ post)"
  proof
    assume "\<exists>pre post. c # s = pre @ t @ post"
    then obtain pre post where eq: "c # s = pre @ t @ post" by blast
    show "(\<exists>post. c # s = t @ post) \<or> (\<exists>pre post. s = pre @ t @ post)"
    proof (cases pre)
      case Nil
      with eq show ?thesis by auto
    next
      case (Cons a pre')
      with eq have "s = pre' @ t @ post" by simp
      then show ?thesis by blast
    qed
  next
    assume "(\<exists>post. c # s = t @ post) \<or> (\<exists>pre post. s = pre @ t @ post)"
    then show "\<exists>pre post. c # s = pre @ t @ post"
    proof
      assume "\<exists>post. c # s = t @ post"
      then obtain post where "c # s = [] @ t @ post" by auto
      then show ?thesis by blast
    next
      assume "\<exists>pre post. s = pre @ t @ post"
      then obtain pre post where "c # s = (c # pre) @ t @ post" by auto
      then show ?thesis by blast
    qed
  qed
  with Cons show ?case by (simp add: startsWith_iff)
qed

lemma some_word_iff:
  "some_word lc ws \<longleftrightarrow> (\<exists>w \<in> set ws. length w > 3 \<and> str_includes lc w)"
  by (induction ws) auto

lemma document_included_code:
  "document_included query doc \<longleftrightarrow>
     str_includes (toLowerCase doc) (toLowerCase query) \<or>
     some_word (toLowerCase doc) (split_on CHR '' '' (toLowerCase query))"
  by (simp add: document_included_def some_word_iff str_includes_iff)

lemma search_loop_string:
  "search_loop (JStr query) files relevant =
     Inr (relevant @ filter (document_included query) (map content files))"
  by (induction files arbitrary: relevant) (simp_all add: document_included_code Let_def)

text \<open>The pieces \<^verbatim>\<open>split(' ')\<close> returns are the stretches between the separators.\<close>

lemma split_on_nonempty: "split_on sep s \<noteq> []"
  by (induction s) (auto split: list.splits)

lemma join_Cons_head: "join sep ((c # w) # ws) = c # join sep (w # ws)"
  by (cases ws) simp_all

lemma join_split_on: "join [sep] (split_on sep s) = s"
proof (induction s)
  case Nil
  then show ?case by simp
next
  case (Cons c s)
  show ?case
  proof (cases "split_on sep s")
    case Nil
    then show ?thesis by (simp add: split_on_nonempty)
  next
    case (Cons w ws)
    with Cons.IH show ?thesis by (auto simp: join_Cons_head)
  qed
qed

lemma split_on_no_sep: "w \<in> set (split_on sep s) \<Longrightarrow> sep \<notin> set w"
  by (induction s arbitrary: w) (auto split: if_splits list.splits)

text \<open>
  C4 (as the code has it).  For every query string and every knowledge directory, the
  result is the texts of the documents that match, in directory order, joined by the
  delimiter; a document matches when its lowercased text contains the lowercased query,
  or contains a piece of the lowercased query between single spaces that is longer than 3
  characters.  When no document matches the result is the empty string.
\<close>

theorem C4_search_by_space_tokens:
  "searchKnowledge (JStr query) dir =
     Inr (join delimiter
            (filter (document_included query) (map content (loadKnowledgeFiles dir)))) \<and>
   ((\<forall>doc \<in> set (map content (loadKnowledgeFiles dir)). \<not> document_included query doc) \<longrightarrow>
      searchKnowledge (JStr query) dir = Inr [])"
proof
  show eq: "searchKnowledge (JStr query) dir =
     Inr (join delimiter
            (filter (document_included query) (map content (loadKnowledgeFiles dir))))"
    by (simp add: searchKnowledge_def search_loop_string)
  show "(\<forall>doc \<in> set (map content (loadKnowledgeFiles dir)). \<not> document_included query doc) \<longrightarrow>
      searchKnowledge (JStr query) dir = Inr []"
  proof
    assume "\<forall>doc \<in> set (map content (loadKnowledgeFiles dir)). \<not> document_included query doc"
    then have "filter (document_included query) (map content (loadKnowledgeFiles dir)) = []"
      by (simp add: filter_empty_conv)
    with eq show "searchKnowledge (JStr query) dir = Inr []" by simp
  qed
qed

lemma document_included_fun:
  "document_included query =
     (\<lambda>doc. str_includes (toLowerCase doc) (toLowerCase query) \<or>
            some_word (toLowerCase doc) (split_on CHR '' '' (toLowerCase query)))"
  by (rule ext) (rule document_included_code)

theorem C4_search_by_space_tokens_witness:
  "searchKnowledge (JStr ''Refund POLICY'')
     (Some [(''a.md'', Some ''Our refund policy: 30 days''), (''b.md'', Some ''Shipping''),
            (''notes.txt'', Some ''refund''), (''c.md'', Some ''Policy list'')]) =
     Inr (''Our refund policy: 30 days'' @ delimiter @ ''Policy list'') \<and>
   \<not> document_included ''zzzz'' ''Shipping'' \<and>
   searchKnowledge (JStr ''zzzz'') (Some [(''b.md'', Some ''Shipping'')]) = Inr []"
proof -
  have e1: "join delimiter (filter (document_included ''Refund POLICY'')
      (map content (loadKnowledgeFiles
        (Some [(''a.md'', Some ''Our refund policy: 30 days''), (''b.md'', Some ''Shipping''),
               (''notes.txt'', Some ''refund''), (''c.md'', Some ''Policy list'')])))) =
      ''Our refund policy: 30 days'' @ delimiter @ ''Policy list''"
    unfolding document_included_fun by code_simp
  have e2: "\<not> document_included ''zzzz'' ''Shipping''"
    unfolding document_included_fun by code_simp
  have e3: "map content (loadKnowledgeFiles (Some [(''b.md'', Some ''Shipping'')])) = [''Shipping'']"
    by code_simp
  from C4_search_by_space_tokens [of "''Refund POLICY''"
      "Some [(''a.md'', Some ''Our refund policy: 30 days''), (''b.md'', Some ''Shipping''),
            (''notes.txt'', Some ''refund''), (''c.md'', Some ''Policy list'')]"]
    C4_search_by_space_tokens [of "''zzzz''" "Some [(''b.md'', Some ''Shipping'')]"]
  show ?thesis
    by (simp add: e1 e2 e3)
qed

text \<open>
  The rule in the specification's words differs on a query whose words are separated by a
  tab: \<open>cdef\<close> is a whitespace-delimited token of the query longer than 3 characters and
  the document contains it, but \<^verbatim>\<open>split(' ')\<close> leaves the query in one piece and the code
  returns nothing.
\<close>

theorem C4_whitespace_counterexample:
  "spec_document_included (''ab'' @ [CHR 0x09] @ ''cdef'') ''cdef'' \<and>
   spec_search (''ab'' @ [CHR 0x09] @ ''cdef'') [''cdef''] = ''cdef'' \<and>
   searchKnowledge (JStr (''ab'' @ [CHR 0x09] @ ''cdef'')) (Some [(''faq.md'', Some ''cdef'')]) = Inr []"
  by code_simp

section \<open>Properties of the knowledge upsert\<close>

lemma allowed_char_not_slash: "allowed_char c \<Longrightarrow> c \<noteq> CHR ''/''"
  by (auto simp: allowed_char_def Let_def)

lemma split_on_no_separator: "sep \<notin> set s \<Longrightarrow> split_on sep s = [s]"
  by (induction s) auto

lemma storage_key_one_segment: "split_on CHR ''/'' (sanitize s @ ''.md'') = [sanitize s @ ''.md'']"
proof (rule split_on_no_separator)
  show "CHR ''/'' \<notin> set (sanitize s @ ''.md'')"
    using allowed_char_not_slash by (auto simp: sanitize_def)
qed

lemma storage_key_not_dots:
  "sanitize s @ ''.md'' \<noteq> [] \<and> sanitize s @ ''.md'' \<noteq> ''.'' \<and> sanitize s @ ''.md'' \<noteq> ''..''"
proof -
  have "length (sanitize s @ ''.md'') \<ge> 3" by simp
  then show ?thesis by auto
qed

lemma path_join_storage_key: "path_join kdir (sanitize s @ ''.md'') = kdir @ [sanitize s @ ''.md'']"
  by (simp add: path_join_def storage_key_one_segment join_segment_def storage_key_not_dots
      del: append_eq_append_conv2)

lemma inside_dir_child: "inside_dir dir (dir @ [seg])"
  by (simp add: inside_dir_def)

lemma post_knowledge_cases:
  "snd (post_knowledge kdir body fs) = fs \<or>
   (\<exists>s text. snd (post_knowledge kdir body fs) = fs(kdir @ [sanitize s @ ''.md''] \<mapsto> text))"
proof (cases "get_prop body ''name''")
  case (Inl e)
  then show ?thesis by (simp add: post_knowledge_def)
next
  case (Inr v)
  show ?thesis
  proof (cases "write_data (js_or (js_prop body ''content'') (JStr []))")
    case (Inl e)
    with Inr show ?thesis by (cases v) (simp_all add: post_knowledge_def Let_def)
  next
    case w: (Inr t)
    with Inr show ?thesis
      by (cases v) (auto simp: post_knowledge_def Let_def path_join_storage_key)
  qed
qed

text \<open>
  C9.  Whatever the request body, \<^verbatim>\<open>POST /api/knowledge\<close> leaves every path that is not
  inside the knowledge directory as it was.  For a name that is a non-empty string (and a
  text that can be written), the one file written is the direct child of the knowledge
  directory named by the characters of the name that are in \<open>[A-Za-z0-9-_]\<close>, followed by
  \<open>.md\<close>.
\<close>

theorem C9_knowledge_write_stays_inside:
  "(\<forall>p. \<not> inside_dir kdir p \<longrightarrow> snd (post_knowledge kdir body fs) p = fs p) \<and>
   (js_prop body ''name'' = JStr s \<and> s \<noteq> [] \<and>
    write_data (js_or (js_prop body ''content'') (JStr [])) = Inr text \<longrightarrow>
      post_knowledge kdir body fs =
        (Inr success, fs(kdir @ [filter allowed_char s @ ''.md''] \<mapsto> text)))"
proof (intro conjI allI impI)
  fix p
  assume out: "\<not> inside_dir kdir p"
  from post_knowledge_cases [of kdir body fs]
  show "snd (post_knowledge kdir body fs) p = fs p"
  proof
    assume "snd (post_knowledge kdir body fs) = fs"
    then show ?thesis by simp
  next
    assume "\<exists>s text. snd (post_knowledge kdir body fs) = fs(kdir @ [sanitize s @ ''.md''] \<mapsto> text)"
    then obtain s t where
      w: "snd (post_knowledge kdir body fs) = fs(kdir @ [sanitize s @ ''.md''] \<mapsto> t)"
      by blast
    from out have "p \<noteq> kdir @ [sanitize s @ ''.md'']"
      using inside_dir_child by blast
    with w show ?thesis by simp
  qed
next
  assume a: "js_prop body ''name'' = JStr s \<and> s \<noteq> [] \<and>
    write_data (js_or (js_prop body ''content'') (JStr [])) = Inr text"
  then have "get_prop body ''name'' = Inr (JStr s)"
    by (cases body) auto
  with a show "post_knowledge kdir body fs =
        (Inr success, fs(kdir @ [filter allowed_char s @ ''.md''] \<mapsto> text))"
    using path_join_storage_key [of kdir s]
    by (simp add: post_knowledge_def Let_def sanitize_def)
qed

theorem C9_knowledge_write_stays_inside_witness:
  "\<not> inside_dir [''app'', ''data'', ''knowledge''] [''app'', ''data'', ''b.md''] \<and>
   snd (post_knowledge [''app'', ''data'', ''knowledge'']
          (JObj [(''name'', JStr ''a/b.md''), (''content'', JStr ''hello'')])
          (Map.empty([''app'', ''data'', ''b.md''] \<mapsto> ''old''))) [''app'', ''data'', ''b.md''] =
     Some ''old'' \<and>
   post_knowledge [''app'', ''data'', ''knowledge'']
     (JObj [(''name'', JStr ''a/b.md''), (''content'', JStr ''hello'')])
     (Map.empty([''app'', ''data'', ''b.md''] \<mapsto> ''old'')) =
     (Inr success,
      (Map.empty([''app'', ''data'', ''b.md''] \<mapsto> ''old''))
        ([''app'', ''data'', ''knowledge'', ''abmd.md''] \<mapsto> ''hello''))"
proof -
  have key: "filter allowed_char ''a/b.md'' = ''abmd''"
    by code_simp
  have out: "\<not> inside_dir [''app'', ''data'', ''knowledge''] [''app'', ''data'', ''b.md'']"
    by code_simp
  note inst = C9_knowledge_write_stays_inside [of "[''app'', ''data'', ''knowledge'']"
      "JObj [(''name'', JStr ''a/b.md''), (''content'', JStr ''hello'')]"
      "Map.empty([''app'', ''data'', ''b.md''] \<mapsto> ''old'')" "''a/b.md''" "''hello''"]
  from inst [unfolded key] out show ?thesis
    by (simp add: js_or_def)
qed

section \<open>Properties of webhook verification\<close>

lemma trace_emit [simp]: "trace (emit e w) = trace w @ [e]"
  by (simp add: emit_def)

lemma messageLog_emit [simp]: "messageLog (emit e w) = messageLog w"
  by (simp add: emit_def)

lemma trace_logMessage [simp]:
  "trace (logMessage now ty d w) = trace w @ [ConsoleLog (''['' @ ty @ '']'') d]"
  by (simp add: logMessage_def Let_def)

lemma strict_eq_JStr [simp]: "strict_eq v (JStr s) \<longleftrightarrow> v = JStr s"
  by (cases v) auto

lemma list_ex_set: "list_ex P xs \<longleftrightarrow> (\<exists>x \<in> set xs. P x)"
  by (simp add: list_ex_iff)

text \<open>
  C2 (as the code has it).  \<^verbatim>\<open>GET /webhook\<close> sends exactly one response: status 200 with
  the supplied challenge as body if and only if the mode is \<open>subscribe\<close> and the supplied
  token is strictly equal to the verify token of some configured page (multi-tenant) or
  to the configured verify token (single-tenant); in every other case status 403 with the
  body \<open>Forbidden\<close>.
\<close>

theorem C2_webhook_verification:
  "responses (new_effects w (get_webhook_mt E query w)) =
     [if js_prop query ''hub.mode'' = JStr ''subscribe'' \<and>
         (\<exists>p \<in> set (loadPages (pages_file E)).
            strict_eq (verifyToken p) (js_prop query ''hub.verify_token''))
      then Respond 200 (js_prop query ''hub.challenge'')
      else Respond 403 (JStr ''Forbidden'')] \<and>
   responses (new_effects w (get_webhook_st E query w)) =
     [if js_prop query ''hub.mode'' = JStr ''subscribe'' \<and>
         strict_eq (js_prop query ''hub.verify_token'') (c_verifyToken (loadConfig (config_file E)))
      then Respond 200 (js_prop query ''hub.challenge'')
      else Respond 403 (JStr ''Forbidden'')]"
  by (simp add: get_webhook_mt_def get_webhook_st_def Let_def new_effects_def responses_def
      sendStatus_403_def list_ex_set)

theorem C2_webhook_verification_witness:
  "responses (new_effects initial_world
      (get_webhook_mt (example_env (JStr '''') (Resolved JNull)) (verify_query ''T1'') initial_world)) =
     [Respond 200 (JStr ''xyz'')] \<and>
   responses (new_effects initial_world
      (get_webhook_mt (example_env (JStr '''') (Resolved JNull)) (verify_query ''WRONG'') initial_world)) =
     [Respond 403 (JStr ''Forbidden'')] \<and>
   responses (new_effects initial_world
      (get_webhook_st (example_env (JStr '''') (Resolved JNull)) (verify_query ''T1'') initial_world)) =
     [Respond 200 (JStr ''xyz'')]"
  using C2_webhook_verification [of initial_world "example_env (JStr '''') (Resolved JNull)"
      "verify_query ''T1''"]
    C2_webhook_verification [of initial_world "example_env (JStr '''') (Resolved JNull)"
      "verify_query ''WRONG''"]
  by (simp add: example_env_def example_page_def verify_query_def loadPages_def loadConfig_def)

text \<open>
  With a wrong token the body of the 403 response is the status text, not empty as the
  specification has it.
\<close>

theorem C2_forbidden_body_counterexample:
  "responses (new_effects initial_world
      (get_webhook_mt (example_env (JStr '''') (Resolved JNull)) (verify_query ''WRONG'') initial_world)) =
     [Respond 403 (JStr ''Forbidden'')] \<and>
   \<not> spec_verification_reply False (JStr ''xyz'') (Respond 403 (JStr ''Forbidden''))"
  by (simp add: get_webhook_mt_def Let_def new_effects_def responses_def sendStatus_403_def
      example_env_def example_page_def verify_query_def loadPages_def initial_world_def
      spec_verification_reply_def)

section \<open>Properties of the completion client\<close>

lemma new_effects_append: "trace w' = trace w @ es \<Longrightarrow> new_effects w w' = es"
  by (simp add: new_effects_def)

text \<open>The \<^verbatim>\<open>try\<close> block issues exactly one request, whatever comes back.\<close>

lemma request_completion_trace:
  "\<exists>es. trace (snd (request_completion E model apiKey userMessage kbContext w)) =
          trace w @
          AxiosPost completions_url (completion_data model kbContext userMessage)
            (completion_config apiKey) # es \<and>
        filter is_request es = [] \<and> filter is_respond es = [] \<and>
        messageLog (snd (request_completion E model apiKey userMessage kbContext w)) = messageLog w"
  by (auto simp: request_completion_def completion_failed_def Let_def
      split: http_outcome.splits sum.splits js_error.splits)

lemma generateAIResponse_mt_no_key:
  assumes "\<not> truthy (js_or (page_opt openrouterKey
              (find (\<lambda>p. strict_eq (page_id p) pageId) (loadPages (pages_file E))))
            (g_openrouterKey (loadGlobalConfig (global_config_file E))))"
  shows "generateAIResponse_mt E userMessage kbContext pageId w =
           (ResultError (JStr ''OpenRouter API key not configured for this page''),
            emit (FsRead PagesFile) (emit (FsRead ConfigFile) w))"
  using assms by (simp add: generateAIResponse_mt_def Let_def)

lemma generateAIResponse_mt_key:
  assumes "truthy (js_or (page_opt openrouterKey
              (find (\<lambda>p. strict_eq (page_id p) pageId) (loadPages (pages_file E))))
            (g_openrouterKey (loadGlobalConfig (global_config_file E))))"
  shows "generateAIResponse_mt E userMessage kbContext pageId w =
           request_completion E
             (js_or (js_or (page_opt aiModel
                  (find (\<lambda>p. strict_eq (page_id p) pageId) (loadPages (pages_file E))))
                (defaultAiModel (loadGlobalConfig (global_config_file E))))
              (JStr ''openai/gpt-5.2''))
             (js_or (page_opt openrouterKey
                  (find (\<lambda>p. strict_eq (page_id p) pageId) (loadPages (pages_file E))))
                (g_openrouterKey (loadGlobalConfig (global_config_file E))))
             userMessage kbContext (emit (FsRead PagesFile) (emit (FsRead ConfigFile) w))"
  using assms by (simp add: generateAIResponse_mt_def Let_def)

lemma requests_after_reads:
  assumes "trace w' = trace (emit (FsRead b) (emit (FsRead a) w)) @ r # es"
    and "filter is_request es = []" and "is_request r"
  shows "filter is_request (new_effects w w') = [r]"
  using assms by (simp add: new_effects_def)

lemma requests_after_read:
  assumes "trace w' = trace (emit (FsRead a) w) @ r # es"
    and "filter is_request es = []" and "is_request r"
  shows "filter is_request (new_effects w w') = [r]"
  using assms by (simp add: new_effects_def)

text \<open>
  C6 (as the code has it).  Multi-tenant: the key is the page's \<^verbatim>\<open>openrouterKey\<close> when that
  is truthy (present and non-empty), else the global one; the model is the page's
  \<^verbatim>\<open>aiModel\<close> when truthy, else the global default when truthy, else \<open>openai/gpt-5.2\<close>.
  When no key resolves the client returns the error
  \<open>OpenRouter API key not configured for this page\<close> and issues no request; otherwise it
  issues exactly one request, to the completion endpoint, with that model and that key as
  bearer token.  Single-tenant: the same with the one configured key and model, and the
  error \<open>OpenRouter API key not configured\<close>.
\<close>

theorem C6_completion_key_resolution:
  "(let page = find (\<lambda>p. strict_eq (page_id p) pageId) (loadPages (pages_file E));
        config = loadGlobalConfig (global_config_file E);
        pageKey = page_opt openrouterKey page;
        pageModel = page_opt aiModel page;
        r = generateAIResponse_mt E userMessage kbContext pageId w
    in (\<not> truthy pageKey \<and> \<not> truthy (g_openrouterKey config) \<longrightarrow>
          fst r = ResultError (JStr ''OpenRouter API key not configured for this page'') \<and>
          filter is_request (new_effects w (snd r)) = []) \<and>
       (truthy pageKey \<or> truthy (g_openrouterKey config) \<longrightarrow>
          filter is_request (new_effects w (snd r)) =
            [AxiosPost completions_url
               (completion_data
                  (if truthy pageModel then pageModel
                   else if truthy (defaultAiModel config) then defaultAiModel config
                   else JStr ''openai/gpt-5.2'')
                  kbContext userMessage)
               (completion_config (if truthy pageKey then pageKey else g_openrouterKey config))])) \<and>
   (let config = loadConfig (config_file E);
        r = generateAIResponse_st E userMessage kbContext w
    in (\<not> truthy (c_openrouterKey config) \<longrightarrow>
          fst r = ResultError (JStr ''OpenRouter API key not configured'') \<and>
          filter is_request (new_effects w (snd r)) = []) \<and>
       (truthy (c_openrouterKey config) \<longrightarrow>
          filter is_request (new_effects w (snd r)) =
            [AxiosPost completions_url
               (completion_data
                  (if truthy (c_aiModel config) then c_aiModel config else JStr ''openai/gpt-5.2'')
                  kbContext userMessage)
               (completion_config (c_openrouterKey config))]))"
proof -
  let ?page = "find (\<lambda>p. strict_eq (page_id p) pageId) (loadPages (pages_file E))"
  let ?config = "loadGlobalConfig (global_config_file E)"
  let ?key = "js_or (page_opt openrouterKey ?page) (g_openrouterKey ?config)"
  let ?model = "js_or (js_or (page_opt aiModel ?page) (defaultAiModel ?config)) (JStr ''openai/gpt-5.2'')"
  let ?r = "generateAIResponse_mt E userMessage kbContext pageId w"
  have mt_none: "fst ?r = ResultError (JStr ''OpenRouter API key not configured for this page'') \<and>
      filter is_request (new_effects w (snd ?r)) = []"
    if "\<not> truthy (page_opt openrouterKey ?page)" "\<not> truthy (g_openrouterKey ?config)"
  proof -
    from that have "\<not> truthy ?key" by (simp add: js_or_def)
    then show ?thesis
      by (simp add: generateAIResponse_mt_no_key new_effects_def)
  qed
  have mt_some: "filter is_request (new_effects w (snd ?r)) =
      [AxiosPost completions_url (completion_data ?model kbContext userMessage) (completion_config ?key)]"
    if "truthy (page_opt openrouterKey ?page) \<or> truthy (g_openrouterKey ?config)"
  proof -
    from that have "truthy ?key" by (auto simp: js_or_def)
    then have r: "?r = request_completion E ?model ?key userMessage kbContext
        (emit (FsRead PagesFile) (emit (FsRead ConfigFile) w))"
      by (rule generateAIResponse_mt_key)
    from request_completion_trace [of E ?model ?key userMessage kbContext
        "emit (FsRead PagesFile) (emit (FsRead ConfigFile) w)"]
    obtain es where "trace (snd ?r) = trace (emit (FsRead PagesFile) (emit (FsRead ConfigFile) w)) @
          AxiosPost completions_url (completion_data ?model kbContext userMessage)
            (completion_config ?key) # es" "filter is_request es = []"
      unfolding r by blast
    then show ?thesis
      by (rule requests_after_reads) simp
  qed
  let ?c = "loadConfig (config_file E)"
  let ?s = "generateAIResponse_st E userMessage kbContext w"
  have st_none: "fst ?s = ResultError (JStr ''OpenRouter API key not configured'') \<and>
      filter is_request (new_effects w (snd ?s)) = []"
    if "\<not> truthy (c_openrouterKey ?c)"
    using that by (simp add: generateAIResponse_st_def Let_def new_effects_def)
  have st_some: "filter is_request (new_effects w (snd ?s)) =
      [AxiosPost completions_url
         (completion_data (js_or (c_aiModel ?c) (JStr ''openai/gpt-5.2'')) kbContext userMessage)
         (completion_config (c_openrouterKey ?c))]"
    if "truthy (c_openrouterKey ?c)"
  proof -
    from that have s: "?s = request_completion E (js_or (c_aiModel ?c) (JStr ''openai/gpt-5.2''))
        (c_openrouterKey ?c) userMessage kbContext (emit (FsRead ConfigFile) w)"
      by (simp add: generateAIResponse_st_def Let_def)
    from request_completion_trace [of E "js_or (c_aiModel ?c) (JStr ''openai/gpt-5.2'')"
        "c_openrouterKey ?c" userMessage kbContext "emit (FsRead ConfigFile) w"]
    obtain es where "trace (snd ?s) = trace (emit (FsRead ConfigFile) w) @
          AxiosPost completions_url
            (completion_data (js_or (c_aiModel ?c) (JStr ''openai/gpt-5.2'')) kbContext userMessage)
            (completion_config (c_openrouterKey ?c)) # es" "filter is_request es = []"
      unfolding s by blast
    then show ?thesis
      by (rule requests_after_read) simp
  qed
  show ?thesis
    unfolding Let_def
    using mt_none mt_some st_none st_some
    by (simp add: js_or_def)
qed
theorem C6_completion_key_resolution_witness:
  "fst (generateAIResponse_mt (example_env (JStr '''') (Resolved JNull)) (JStr ''hi'') []
          (JStr ''page_1'') initial_world) =
     ResultError (JStr ''OpenRouter API key not configured for this page'') \<and>
   filter is_request (new_effects initial_world
       (snd (generateAIResponse_mt (example_env (JStr '''') (Resolved JNull)) (JStr ''hi'') []
          (JStr ''page_1'') initial_world))) = [] \<and>
   filter is_request (new_effects initial_world
       (snd (generateAIResponse_mt (example_env (JStr ''sk-or-1'') (Resolved JNull)) (JStr ''hi'') []
          (JStr ''page_1'') initial_world))) =
     [AxiosPost completions_url (completion_data (JStr ''openai/gpt-5.2'') [] (JStr ''hi''))
        (completion_config (JStr ''sk-or-1''))] \<and>
   fst (generateAIResponse_st (example_env (JStr '''') (Resolved JNull)) (JStr ''hi'') []
          initial_world) =
     ResultError (JStr ''OpenRouter API key not configured'') \<and>
   filter is_request (new_effects initial_world
       (snd (generateAIResponse_st (example_env (JStr ''sk-or-1'') (Resolved JNull)) (JStr ''hi'') []
          initial_world))) =
     [AxiosPost completions_url (completion_data (JStr ''openai/gpt-5.2'') [] (JStr ''hi''))
        (completion_config (JStr ''sk-or-1''))]"
  using C6_completion_key_resolution [of "JStr ''page_1''"
      "example_env (JStr '''') (Resolved JNull)" "JStr ''hi''" "[]" initial_world]
    C6_completion_key_resolution [of "JStr ''page_1''"
      "example_env (JStr ''sk-or-1'') (Resolved JNull)" "JStr ''hi''" "[]" initial_world]
  by (simp add: Let_def example_env_def example_page_def loadPages_def loadGlobalConfig_def
      loadConfig_def page_opt_def)

text \<open>
  The message of the missing-key error is not the one the specification quotes, in
  either server.
\<close>

theorem C6_error_message_counterexample:
  "fst (generateAIResponse_mt (example_env (JStr '''') (Resolved JNull)) (JStr ''hi'') []
          (JStr ''page_1'') initial_world) \<noteq> spec_missing_key_result \<and>
   fst (generateAIResponse_st (example_env (JStr '''') (Resolved JNull)) (JStr ''hi'') []
          initial_world) \<noteq> spec_missing_key_result"
  by (simp add: generateAIResponse_mt_def generateAIResponse_st_def Let_def example_env_def
      example_page_def loadPages_def loadGlobalConfig_def loadConfig_def page_opt_def js_or_def
      spec_missing_key_result_def)

section \<open>Properties of the reply dispatcher\<close>

lemma not_configured_effects:
  "trace (not_configured E w) =
     trace w @ [ConsoleLog ''[ERROR]'' (JObj [(''msg'', JStr ''PAGE_ACCESS_TOKEN not configured'')])]"
  by (simp add: not_configured_def)

lemma deliver_trace:
  "\<exists>e. trace (deliver E senderId replyText accessToken w) =
         trace w @ [AxiosPost graph_url (send_data senderId replyText) (send_config accessToken), e] \<and>
       \<not> is_request e \<and> \<not> is_respond e"
  by (auto simp: deliver_def Let_def split: http_outcome.splits)

text \<open>
  The single-tenant dispatcher does what C7 says: on an absent credential, the placeholder
  or a masked value it logs the error and issues no request.
\<close>

lemma sendAutoReply_st_guard:
  assumes "\<not> truthy accessToken \<or> accessToken = JStr ''YOUR_PAGE_ACCESS_TOKEN'' \<or> is_masked accessToken"
  shows "sendAutoReply_st E senderId replyText accessToken w = (None, not_configured E w)"
    and "filter is_request
           (new_effects w (snd (sendAutoReply_st E senderId replyText accessToken w))) = []"
proof -
  show r: "sendAutoReply_st E senderId replyText accessToken w = (None, not_configured E w)"
    using assms by (cases accessToken) (auto simp: sendAutoReply_st_def)
  show "filter is_request
           (new_effects w (snd (sendAutoReply_st E senderId replyText accessToken w))) = []"
    by (simp add: r new_effects_def not_configured_effects)
qed

text \<open>
  The multi-tenant dispatcher only tests \<^verbatim>\<open>!pageAccessToken\<close>: every truthy credential is
  used for a request.
\<close>

lemma sendAutoReply_mt_truthy:
  "truthy accessToken \<Longrightarrow>
     sendAutoReply_mt E senderId replyText accessToken w = deliver E senderId replyText accessToken w"
  by (simp add: sendAutoReply_mt_def)

text \<open>
  C7 in the multi-tenant server, at a masked credential and at the placeholder: the
  request to the message-send endpoint is issued, with that credential as
  \<^verbatim>\<open>access_token\<close>.
\<close>

theorem C7_multi_tenant_sends_with_masked_token:
  "filter is_request (new_effects initial_world
      (sendAutoReply_mt (example_env (JStr '''') (Resolved JNull)) (JStr ''USER_1'') (JStr ''Hi!'')
         (JStr ''***abcd'') initial_world)) =
     [AxiosPost graph_url (send_data (JStr ''USER_1'') (JStr ''Hi!''))
        (send_config (JStr ''***abcd''))] \<and>
   filter is_request (new_effects initial_world
      (sendAutoReply_mt (example_env (JStr '''') (Resolved JNull)) (JStr ''USER_1'') (JStr ''Hi!'')
         (JStr ''YOUR_PAGE_ACCESS_TOKEN'') initial_world)) =
     [AxiosPost graph_url (send_data (JStr ''USER_1'') (JStr ''Hi!''))
        (send_config (JStr ''YOUR_PAGE_ACCESS_TOKEN''))]"
  by (simp add: sendAutoReply_mt_def deliver_def Let_def new_effects_def initial_world_def
      example_env_def graph_url_def completions_url_def)

section \<open>Properties of inbound event processing\<close>

lemma quiet_refl: "quiet w w"
  by (simp add: quiet_def)

lemma quiet_trans: "quiet w w1 \<Longrightarrow> quiet w1 w2 \<Longrightarrow> quiet w w2"
  by (auto simp: quiet_def)

lemma quiet_emit: "\<not> is_respond e \<Longrightarrow> quiet w w1 \<Longrightarrow> quiet w (emit e w1)"
  by (auto simp: quiet_def)

lemma quiet_logMessage: "quiet w w1 \<Longrightarrow> quiet w (logMessage now ty d w1)"
  by (auto simp: quiet_def)

lemma quiet_request_completion:
  assumes "request_completion E model apiKey userMessage kbContext w1 = (r, w2)" and "quiet w w1"
  shows "quiet w w2"
proof -
  from request_completion_trace [of E model apiKey userMessage kbContext w1] assms(1)
  obtain es where "trace w2 = trace w1 @
      AxiosPost completions_url (completion_data model kbContext userMessage)
        (completion_config apiKey) # es" "filter is_respond es = []"
    by auto
  then have "quiet w1 w2" by (simp add: quiet_def)
  with assms(2) show ?thesis by (rule quiet_trans)
qed

lemma quiet_generateAIResponse_mt:
  assumes "generateAIResponse_mt E userMessage kbContext pageId w1 = (r, w2)" and "quiet w w1"
  shows "quiet w w2"
proof -
  from assms(2) have q: "quiet w (emit (FsRead PagesFile) (emit (FsRead ConfigFile) w1))"
    by (simp add: quiet_emit)
  show ?thesis
  proof (cases "truthy (js_or (page_opt openrouterKey
              (find (\<lambda>p. strict_eq (page_id p) pageId) (loadPages (pages_file E))))
            (g_openrouterKey (loadGlobalConfig (global_config_file E))))")
    case True
    from assms(1) [unfolded generateAIResponse_mt_key [OF True]] q show ?thesis
      by (rule quiet_request_completion)
  next
    case False
    from assms(1) [unfolded generateAIResponse_mt_no_key [OF False]] q show ?thesis
      by simp
  qed
qed

lemma quiet_generateAIResponse_st:
  assumes "generateAIResponse_st E userMessage kbContext w1 = (r, w2)" and "quiet w w1"
  shows "quiet w w2"
proof -
  from assms(2) have q: "quiet w (emit (FsRead ConfigFile) w1)"
    by (simp add: quiet_emit)
  show ?thesis
  proof (cases "truthy (c_openrouterKey (loadConfig (config_file E)))")
    case True
    with assms(1) have "request_completion E
        (js_or (c_aiModel (loadConfig (config_file E))) (JStr ''openai/gpt-5.2''))
        (c_openrouterKey (loadConfig (config_file E))) userMessage kbContext
        (emit (FsRead ConfigFile) w1) = (r, w2)"
      by (simp add: generateAIResponse_st_def Let_def)
    from this q show ?thesis by (rule quiet_request_completion)
  next
    case False
    with assms(1) q show ?thesis
      by (simp add: generateAIResponse_st_def Let_def)
  qed
qed

lemma quiet_not_configured: "quiet w w1 \<Longrightarrow> quiet w (not_configured E w1)"
  by (simp add: not_configured_def quiet_logMessage)

lemma quiet_deliver: "quiet w w1 \<Longrightarrow> quiet w (deliver E senderId replyText accessToken w1)"
proof -
  assume q: "quiet w w1"
  from deliver_trace [of E senderId replyText accessToken w1]
  obtain e where "trace (deliver E senderId replyText accessToken w1) =
      trace w1 @ [AxiosPost graph_url (send_data senderId replyText) (send_config accessToken), e]"
    "\<not> is_respond e" by blast
  then have "quiet w1 (deliver E senderId replyText accessToken w1)"
    by (simp add: quiet_def)
  with q show ?thesis by (rule quiet_trans)
qed

lemma quiet_sendAutoReply_mt:
  "quiet w w1 \<Longrightarrow> quiet w (sendAutoReply_mt E senderId replyText accessToken w1)"
  by (simp add: sendAutoReply_mt_def quiet_not_configured quiet_deliver)

lemma quiet_sendAutoReply_st:
  "quiet w w1 \<Longrightarrow> quiet w (snd (sendAutoReply_st E senderId replyText accessToken w1))"
  by (auto simp: sendAutoReply_st_def quiet_not_configured quiet_deliver split: sum.splits)

lemma quiet_handle_messaging_mt:
  assumes "quiet w w1"
  shows "quiet w (snd (handle_messaging_mt E pageConfig messaging w1))"
proof (cases "get_prop messaging ''sender''")
  case (Inl e)
  with assms show ?thesis by (simp add: handle_messaging_mt_def)
next
  case sender: (Inr sender)
  show ?thesis
  proof (cases "get_prop sender ''id''")
    case (Inl e)
    with assms sender show ?thesis by (simp add: handle_messaging_mt_def)
  next
    case sid: (Inr senderId)
    let ?message = "js_prop messaging ''message''"
    show ?thesis
    proof (cases "truthy ?message \<and> truthy (js_prop ?message ''text'')")
      case False
      with assms sender sid show ?thesis by (auto simp: handle_messaging_mt_def Let_def)
    next
      case True
      let ?userText = "js_prop ?message ''text''"
      let ?w2 = "emit (FsRead KnowledgeDir) (logMessage (clock E) ''MESSAGE''
                       (JObj [(''page'', name pageConfig), (''senderId'', senderId),
                              (''text'', ?userText)]) w1)"
      from assms have q2: "quiet w ?w2" by (simp add: quiet_emit quiet_logMessage)
      show ?thesis
      proof (cases "searchKnowledge ?userText (knowledge_dir E)")
        case (Inl e)
        with sender sid True q2 show ?thesis by (simp add: handle_messaging_mt_def Let_def)
      next
        case kb: (Inr kbContext)
        obtain aiResult w3 where
          g: "generateAIResponse_mt E ?userText kbContext (page_id pageConfig) ?w2 = (aiResult, w3)"
          by (cases "generateAIResponse_mt E ?userText kbContext (page_id pageConfig) ?w2")
        from g q2 have q3: "quiet w w3" by (rule quiet_generateAIResponse_mt)
        from sender sid True kb g q3 show ?thesis
          by (simp add: handle_messaging_mt_def Let_def quiet_sendAutoReply_mt quiet_logMessage)
      qed
    qed
  qed
qed

lemma quiet_messaging_loop_mt:
  "quiet w w1 \<Longrightarrow> quiet w (snd (messaging_loop_mt E pageConfig items w1))"
proof (induction items arbitrary: w1)
  case Nil
  then show ?case by simp
next
  case (Cons messaging rest)
  obtain x w2 where h: "handle_messaging_mt E pageConfig messaging w1 = (x, w2)"
    by (cases "handle_messaging_mt E pageConfig messaging w1")
  from quiet_handle_messaging_mt [OF Cons.prems, of E pageConfig messaging] h
  have "quiet w w2" by simp
  with Cons.IH [of w2] h show ?case by (cases x) simp_all
qed

lemma quiet_handle_entry_mt:
  assumes "quiet w w1"
  shows "quiet w (snd (handle_entry_mt E entry w1))"
proof (cases "get_prop entry ''id''")
  case (Inl e)
  with assms show ?thesis by (simp add: handle_entry_mt_def)
next
  case pid: (Inr pageId)
  from assms have q: "quiet w (emit (FsRead PagesFile) w1)" by (simp add: quiet_emit)
  show ?thesis
  proof (cases "find_page pageId (loadPages (pages_file E))")
    case (Inl e)
    with pid q show ?thesis by (simp add: handle_entry_mt_def Let_def)
  next
    case found: (Inr r)
    show ?thesis
    proof (cases r)
      case None
      with pid found q show ?thesis by (simp add: handle_entry_mt_def Let_def quiet_logMessage)
    next
      case (Some pageConfig)
      with pid found q show ?thesis
        by (cases "js_iterate (js_prop entry ''messaging'')")
           (simp_all add: handle_entry_mt_def Let_def quiet_logMessage quiet_messaging_loop_mt)
    qed
  qed
qed

lemma quiet_entry_loop_mt:
  "quiet w w1 \<Longrightarrow> quiet w (snd (entry_loop_mt E entries w1))"
proof (induction entries arbitrary: w1)
  case Nil
  then show ?case by simp
next
  case (Cons entry rest)
  obtain x w2 where h: "handle_entry_mt E entry w1 = (x, w2)"
    by (cases "handle_entry_mt E entry w1")
  from quiet_handle_entry_mt [OF Cons.prems, of E entry] h
  have "quiet w w2" by simp
  with Cons.IH [of w2] h show ?case by (cases x) simp_all
qed

lemma quiet_handle_messaging_st:
  assumes "quiet w w1"
  shows "quiet w (snd (handle_messaging_st E cfg messaging w1))"
proof (cases "get_prop messaging ''sender''")
  case (Inl e)
  with assms show ?thesis by (simp add: handle_messaging_st_def)
next
  case sender: (Inr sender)
  show ?thesis
  proof (cases "get_prop sender ''id''")
    case (Inl e)
    with assms sender show ?thesis by (simp add: handle_messaging_st_def)
  next
    case sid: (Inr senderId)
    let ?message = "js_prop messaging ''message''"
    show ?thesis
    proof (cases "truthy ?message \<and> truthy (js_prop ?message ''text'')")
      case False
      with assms sender sid show ?thesis by (auto simp: handle_messaging_st_def Let_def)
    next
      case True
      let ?userText = "js_prop ?message ''text''"
      let ?w2 = "emit (FsRead KnowledgeDir) (logMessage (clock E) ''MESSAGE''
                       (JObj [(''senderId'', senderId), (''text'', ?userText)]) w1)"
      from assms have q2: "quiet w ?w2" by (simp add: quiet_emit quiet_logMessage)
      show ?thesis
      proof (cases "searchKnowledge ?userText (knowledge_dir E)")
        case (Inl e)
        with sender sid True q2 show ?thesis by (simp add: handle_messaging_st_def Let_def)
      next
        case kb: (Inr kbContext)
        obtain aiResult w3 where
          g: "generateAIResponse_st E ?userText kbContext ?w2 = (aiResult, w3)"
          by (cases "generateAIResponse_st E ?userText kbContext ?w2")
        from g q2 have q3: "quiet w w3" by (rule quiet_generateAIResponse_st)
        have send: "quiet w (snd (sendAutoReply_st E senderId t (c_pageAccessToken cfg) w3))" for t
          using q3 by (rule quiet_sendAutoReply_st)
        show ?thesis
        proof (cases "truthy (ai_response aiResult)")
          case r: True
          with sender sid True kb g send show ?thesis
            by (simp add: handle_messaging_st_def Let_def)
        next
          case r: False
          show ?thesis
          proof (cases "truthy (ai_error aiResult)")
            case False
            with r sender sid True kb g q3 show ?thesis
              by (simp add: handle_messaging_st_def Let_def)
          next
            case err: True
            obtain x w4 where
              s: "sendAutoReply_st E senderId fallback_reply (c_pageAccessToken cfg) w3 = (x, w4)"
              by (cases "sendAutoReply_st E senderId fallback_reply (c_pageAccessToken cfg) w3")
            with send [of fallback_reply] have "quiet w w4" by simp
            with r err sender sid True kb g s show ?thesis
              by (cases x) (simp_all add: handle_messaging_st_def Let_def quiet_logMessage)
          qed
        qed
      qed
    qed
  qed
qed

lemma quiet_messaging_loop_st:
  "quiet w w1 \<Longrightarrow> quiet w (snd (messaging_loop_st E cfg items w1))"
proof (induction items arbitrary: w1)
  case Nil
  then show ?case by simp
next
  case (Cons messaging rest)
  obtain x w2 where h: "handle_messaging_st E cfg messaging w1 = (x, w2)"
    by (cases "handle_messaging_st E cfg messaging w1")
  from quiet_handle_messaging_st [OF Cons.prems, of E cfg messaging] h
  have "quiet w w2" by simp
  with Cons.IH [of w2] h show ?case by (cases x) simp_all
qed

lemma quiet_handle_entry_st:
  "quiet w w1 \<Longrightarrow> quiet w (snd (handle_entry_st E cfg entry w1))"
  by (auto simp: handle_entry_st_def quiet_messaging_loop_st split: sum.splits)

lemma quiet_entry_loop_st:
  "quiet w w1 \<Longrightarrow> quiet w (snd (entry_loop_st E cfg entries w1))"
proof (induction entries arbitrary: w1)
  case Nil
  then show ?case by simp
next
  case (Cons entry rest)
  obtain x w2 where h: "handle_entry_st E cfg entry w1 = (x, w2)"
    by (cases "handle_entry_st E cfg entry w1")
  from quiet_handle_entry_st [OF Cons.prems, of E cfg entry] h
  have "quiet w w2" by simp
  with Cons.IH [of w2] h show ?case by (cases x) simp_all
qed

text \<open>After the acknowledgement, the multi-tenant handler sends no further response.\<close>

lemma post_webhook_mt_after_ack:
  "quiet (emit (Respond 200 (JStr ''OK'')) (logMessage (clock E) ''RECEIVED'' body w))
     (snd (post_webhook_mt E body w))"
  by (auto simp: post_webhook_mt_def Let_def quiet_refl quiet_entry_loop_mt split: sum.splits)

lemma post_webhook_st_after_ack:
  "quiet (emit (Respond 200 (JStr ''OK''))
            (logMessage (clock E) ''RECEIVED'' body (emit (FsRead ConfigFile) w)))
     (snd (post_webhook_st E body w))"
  by (auto simp: post_webhook_st_def Let_def quiet_refl quiet_entry_loop_st split: sum.splits)

text \<open>
  C3.  For every body and every environment (every outcome of the downstream calls), and
  also when the handler ends with an exception: the first thing \<^verbatim>\<open>POST /webhook\<close> does after
  logging the receipt (single-tenant: after loading its configuration and logging) is to
  send the response 200 \<open>OK\<close>.  Every read of the pages file or of the knowledge directory
  and every outbound request comes after it, and no second response is sent.
\<close>

theorem C3_webhook_acknowledged_first:
  "(\<exists>rest. trace (snd (post_webhook_mt E body w)) =
             trace w @ [ConsoleLog ''[RECEIVED]'' body, Respond 200 (JStr ''OK'')] @ rest \<and>
           filter is_respond rest = []) \<and>
   (\<exists>rest. trace (snd (post_webhook_st E body w)) =
             trace w @ [FsRead ConfigFile, ConsoleLog ''[RECEIVED]'' body,
                        Respond 200 (JStr ''OK'')] @ rest \<and>
           filter is_respond rest = [])"
proof
  from post_webhook_mt_after_ack [of E body w]
  show "\<exists>rest. trace (snd (post_webhook_mt E body w)) =
             trace w @ [ConsoleLog ''[RECEIVED]'' body, Respond 200 (JStr ''OK'')] @ rest \<and>
           filter is_respond rest = []"
    by (auto simp: quiet_def)
  from post_webhook_st_after_ack [of E body w]
  show "\<exists>rest. trace (snd (post_webhook_st E body w)) =
             trace w @ [FsRead ConfigFile, ConsoleLog ''[RECEIVED]'' body,
                        Respond 200 (JStr ''OK'')] @ rest \<and>
           filter is_respond rest = []"
    by (auto simp: quiet_def)
qed

theorem C3_webhook_acknowledged_first_witness:
  "take 2 (trace (snd (post_webhook_mt (example_env (JStr ''sk-or-1'') completion_rate_limited)
             (text_event ''page_9'' ''refunds please'') initial_world))) =
     [ConsoleLog ''[RECEIVED]'' (text_event ''page_9'' ''refunds please''), Respond 200 (JStr ''OK'')] \<and>
   filter is_respond (trace (snd (post_webhook_mt (example_env (JStr ''sk-or-1'') completion_rate_limited)
             (text_event ''page_9'' ''refunds please'') initial_world))) =
     [Respond 200 (JStr ''OK'')] \<and>
   take 3 (trace (snd (post_webhook_st (example_env (JStr ''sk-or-1'') completion_rate_limited)
             (JObj [(''object'', JStr ''user'')]) initial_world))) =
     [FsRead ConfigFile, ConsoleLog ''[RECEIVED]'' (JObj [(''object'', JStr ''user'')]),
      Respond 200 (JStr ''OK'')] \<and>
   filter is_respond (trace (snd (post_webhook_st (example_env (JStr ''sk-or-1'') completion_rate_limited)
             (JObj [(''object'', JStr ''user'')]) initial_world))) =
     [Respond 200 (JStr ''OK'')]"
proof -
  from C3_webhook_acknowledged_first [of "example_env (JStr ''sk-or-1'') completion_rate_limited"
      "text_event ''page_9'' ''refunds please''" initial_world]
  obtain rest where mt: "trace (snd (post_webhook_mt (example_env (JStr ''sk-or-1'') completion_rate_limited)
             (text_event ''page_9'' ''refunds please'') initial_world)) =
      trace initial_world @
      [ConsoleLog ''[RECEIVED]'' (text_event ''page_9'' ''refunds please''), Respond 200 (JStr ''OK'')] @ rest"
    "filter is_respond rest = []"
    by blast
  from C3_webhook_acknowledged_first [of "example_env (JStr ''sk-or-1'') completion_rate_limited"
      "JObj [(''object'', JStr ''user'')]" initial_world]
  obtain rest' where st: "trace (snd (post_webhook_st (example_env (JStr ''sk-or-1'') completion_rate_limited)
             (JObj [(''object'', JStr ''user'')]) initial_world)) =
      trace initial_world @
      [FsRead ConfigFile, ConsoleLog ''[RECEIVED]'' (JObj [(''object'', JStr ''user'')]),
       Respond 200 (JStr ''OK'')] @ rest'"
    "filter is_respond rest' = []"
    by blast
  from mt st show ?thesis
    by (simp add: initial_world_def)
qed

subsection \<open>What is dispatched for one message\<close>

lemma dispatched_append: "dispatched (xs @ ys) = dispatched xs @ dispatched ys"
  by (induction xs rule: dispatched.induct) simp_all

lemma dispatched_no_request: "filter is_request es = [] \<Longrightarrow> dispatched es = []"
  by (induction es rule: dispatched.induct) (simp_all split: if_splits)

lemma dispatches_refl: "dispatches w w []"
  by (simp add: dispatches_def)

lemma dispatches_trans:
  "dispatches w w1 xs \<Longrightarrow> dispatches w1 w2 ys \<Longrightarrow> dispatches w w2 (xs @ ys)"
  by (auto simp: dispatches_def dispatched_append)

lemma dispatches_new_effects: "dispatches w w' ts \<Longrightarrow> dispatched (new_effects w w') = ts"
  by (auto simp: dispatches_def new_effects_def)

lemma dispatches_emit: "\<not> is_request e \<Longrightarrow> dispatches w (emit e w) []"
  by (cases e) (simp_all add: dispatches_def)

lemma dispatches_logMessage: "dispatches w (logMessage now ty d w) []"
  by (simp add: dispatches_def)

lemma dispatches_request_completion:
  "dispatches w (snd (request_completion E model apiKey userMessage kbContext w)) []"
proof -
  from request_completion_trace [of E model apiKey userMessage kbContext w]
  obtain es where t: "trace (snd (request_completion E model apiKey userMessage kbContext w)) =
      trace w @ AxiosPost completions_url (completion_data model kbContext userMessage)
        (completion_config apiKey) # es" and "filter is_request es = []"
    by blast
  then have "dispatched es = []" by (simp add: dispatched_no_request)
  then have "dispatched (AxiosPost completions_url (completion_data model kbContext userMessage)
        (completion_config apiKey) # es) = []"
    by (simp add: completions_url_def graph_url_def)
  with t show ?thesis unfolding dispatches_def by blast
qed

lemma dispatches_generateAIResponse_mt:
  "dispatches w (snd (generateAIResponse_mt E userMessage kbContext pageId w)) []"
proof -
  let ?w2 = "emit (FsRead PagesFile) (emit (FsRead ConfigFile) w)"
  have reads: "dispatches w ?w2 []"
    using dispatches_trans [OF dispatches_emit dispatches_emit, of "FsRead ConfigFile" "FsRead PagesFile" w]
    by simp
  show ?thesis
  proof (cases "truthy (js_or (page_opt openrouterKey
              (find (\<lambda>p. strict_eq (page_id p) pageId) (loadPages (pages_file E))))
            (g_openrouterKey (loadGlobalConfig (global_config_file E))))")
    case True
    from dispatches_trans [OF reads dispatches_request_completion]
    show ?thesis by (simp add: generateAIResponse_mt_key [OF True])
  next
    case False
    with reads show ?thesis by (simp add: generateAIResponse_mt_no_key [OF False])
  qed
qed

lemma dispatches_generateAIResponse_st:
  "dispatches w (snd (generateAIResponse_st E userMessage kbContext w)) []"
proof -
  have reads: "dispatches w (emit (FsRead ConfigFile) w) []"
    by (simp add: dispatches_emit)
  show ?thesis
  proof (cases "truthy (c_openrouterKey (loadConfig (config_file E)))")
    case True
    from dispatches_trans [OF reads dispatches_request_completion]
    show ?thesis using True by (simp add: generateAIResponse_st_def Let_def)
  next
    case False
    with reads show ?thesis by (simp add: generateAIResponse_st_def Let_def)
  qed
qed

lemma dispatches_not_configured: "dispatches w (not_configured E w) []"
  by (simp add: not_configured_def dispatches_logMessage)

lemma dispatches_deliver: "dispatches w (deliver E senderId replyText accessToken w) [replyText]"
proof -
  from deliver_trace [of E senderId replyText accessToken w]
  obtain e where t: "trace (deliver E senderId replyText accessToken w) =
      trace w @ [AxiosPost graph_url (send_data senderId replyText) (send_config accessToken), e]"
    and "\<not> is_request e" by blast
  then have "dispatched [e] = []" by (simp add: dispatched_no_request)
  then have "dispatched [AxiosPost graph_url (send_data senderId replyText) (send_config accessToken), e] =
      [replyText]"
    by (simp add: send_data_def)
  with t show ?thesis unfolding dispatches_def by blast
qed

lemma dispatches_sendAutoReply_mt:
  "dispatches w (sendAutoReply_mt E senderId replyText accessToken w)
     (if truthy accessToken then [replyText] else [])"
  by (simp add: sendAutoReply_mt_def dispatches_not_configured dispatches_deliver)

lemma sendAutoReply_st_typed:
  assumes "string_or_falsy accessToken"
  shows "sendAutoReply_st E senderId replyText accessToken w =
           (None, if usable_credential accessToken
                  then deliver E senderId replyText accessToken w else not_configured E w)"
  using assms by (cases accessToken) (auto simp: sendAutoReply_st_def usable_credential_def)

lemma dispatches_sendAutoReply_st:
  assumes "string_or_falsy accessToken"
  shows "dispatches w (snd (sendAutoReply_st E senderId replyText accessToken w))
     (if usable_credential accessToken then [replyText] else [])"
  by (simp add: sendAutoReply_st_typed [OF assms] dispatches_not_configured dispatches_deliver)

lemma hd_messageLog_logMessage:
  "hd (messageLog (logMessage now ty d w)) =
     \<lparr>timestamp = now (length (trace w)), type = ty, data = d\<rparr>"
  by (cases "messageLog w") (simp_all add: logMessage_def Let_def)

text \<open>What the completion client returns for each way the request can end.\<close>

lemma request_completion_resolved:
  assumes "axios_post E (length (trace w)) completions_url
             (completion_data model kbContext userMessage) (completion_config apiKey) = Resolved rdata"
    and "completion_content rdata = Inr v"
  shows "fst (request_completion E model apiKey userMessage kbContext w) =
           ResultResponse (if truthy v then v else JStr ''No response generated'')"
  using assms by (simp add: request_completion_def Let_def js_or_def)

lemma request_completion_rejected:
  assumes "axios_post E (length (trace w)) completions_url
             (completion_data model kbContext userMessage) (completion_config apiKey) =
           Rejected rdata msg"
  shows "fst (request_completion E model apiKey userMessage kbContext w) =
           ResultError (js_or (opt_prop (opt_prop rdata ''error'') ''message'') (JStr msg))"
  using assms by (simp add: request_completion_def Let_def completion_failed_def)

lemma handle_messaging_mt_text:
  assumes "get_prop messaging ''sender'' = Inr sender" and "get_prop sender ''id'' = Inr senderId"
    and "js_prop (js_prop messaging ''message'') ''text'' = JStr t" and "t \<noteq> []"
    and "searchKnowledge (JStr t) (knowledge_dir E) = Inr kbContext"
    and "generateAIResponse_mt E (JStr t) kbContext (page_id pageConfig)
           (emit (FsRead KnowledgeDir)
              (logMessage (clock E) ''MESSAGE''
                 (JObj [(''page'', name pageConfig), (''senderId'', senderId), (''text'', JStr t)]) w)) =
         (aiResult, w3)"
  shows "handle_messaging_mt E pageConfig messaging w =
           (None,
            if truthy (ai_response aiResult)
            then sendAutoReply_mt E senderId (ai_response aiResult) (pageAccessToken pageConfig) w3
            else if truthy (ai_error aiResult)
            then logMessage (clock E) ''ERROR'' (JObj [(''msg'', ai_error aiResult)])
                   (sendAutoReply_mt E senderId fallback_reply (pageAccessToken pageConfig) w3)
            else w3)"
proof -
  from assms(3) have "truthy (js_prop messaging ''message'')"
    by (cases "js_prop messaging ''message''") auto
  with assms show ?thesis
    by (simp add: handle_messaging_mt_def Let_def)
qed

lemma handle_messaging_st_text:
  assumes "get_prop messaging ''sender'' = Inr sender" and "get_prop sender ''id'' = Inr senderId"
    and "js_prop (js_prop messaging ''message'') ''text'' = JStr t" and "t \<noteq> []"
    and "searchKnowledge (JStr t) (knowledge_dir E) = Inr kbContext"
    and "generateAIResponse_st E (JStr t) kbContext
           (emit (FsRead KnowledgeDir)
              (logMessage (clock E) ''MESSAGE''
                 (JObj [(''senderId'', senderId), (''text'', JStr t)]) w)) =
         (aiResult, w3)"
    and "string_or_falsy (c_pageAccessToken cfg)"
  shows "handle_messaging_st E cfg messaging w =
           (None,
            if truthy (ai_response aiResult)
            then snd (sendAutoReply_st E senderId (ai_response aiResult) (c_pageAccessToken cfg) w3)
            else if truthy (ai_error aiResult)
            then logMessage (clock E) ''ERROR'' (JObj [(''msg'', ai_error aiResult)])
                   (snd (sendAutoReply_st E senderId fallback_reply (c_pageAccessToken cfg) w3))
            else w3)"
proof -
  from assms(3) have "truthy (js_prop messaging ''message'')"
    by (cases "js_prop messaging ''message''") auto
  with assms(1-6) show ?thesis
    by (simp add: handle_messaging_st_def Let_def sendAutoReply_st_typed [OF assms(7)])
qed
lemma reply_or_fallback_mt:
  assumes "get_prop messaging ''sender'' = Inr sender" and "get_prop sender ''id'' = Inr senderId"
    and "js_prop (js_prop messaging ''message'') ''text'' = JStr t" and "t \<noteq> []"
    and "searchKnowledge (JStr t) (knowledge_dir E) = Inr kbContext"
    and "generateAIResponse_mt E (JStr t) kbContext (page_id pageConfig)
           (emit (FsRead KnowledgeDir)
              (logMessage (clock E) ''MESSAGE''
                 (JObj [(''page'', name pageConfig), (''senderId'', senderId), (''text'', JStr t)]) w)) =
         (aiResult, w3)"
  shows "fst (handle_messaging_mt E pageConfig messaging w) = None"
    and "truthy (ai_response aiResult) \<Longrightarrow>
           dispatched (new_effects w (snd (handle_messaging_mt E pageConfig messaging w))) =
             (if truthy (pageAccessToken pageConfig) then [ai_response aiResult] else [])"
    and "\<not> truthy (ai_response aiResult) \<Longrightarrow> truthy (ai_error aiResult) \<Longrightarrow>
           dispatched (new_effects w (snd (handle_messaging_mt E pageConfig messaging w))) =
             (if truthy (pageAccessToken pageConfig) then [fallback_reply] else []) \<and>
           type (hd (messageLog (snd (handle_messaging_mt E pageConfig messaging w)))) = ''ERROR'' \<and>
           data (hd (messageLog (snd (handle_messaging_mt E pageConfig messaging w)))) =
             JObj [(''msg'', ai_error aiResult)]"
    and "\<not> truthy (ai_response aiResult) \<Longrightarrow> \<not> truthy (ai_error aiResult) \<Longrightarrow>
           dispatched (new_effects w (snd (handle_messaging_mt E pageConfig messaging w))) = []"
proof -
  let ?w1 = "logMessage (clock E) ''MESSAGE''
      (JObj [(''page'', name pageConfig), (''senderId'', senderId), (''text'', JStr t)]) w"
  let ?w2 = "emit (FsRead KnowledgeDir) ?w1"
  note h = handle_messaging_mt_text [OF assms]
  have "dispatches w ?w1 []" by (rule dispatches_logMessage)
  moreover have "dispatches ?w1 ?w2 []" by (simp add: dispatches_emit)
  ultimately have d2: "dispatches w ?w2 []"
    using dispatches_trans by fastforce
  from dispatches_generateAIResponse_mt [of ?w2 E "JStr t" kbContext "page_id pageConfig"] assms(6)
  have "dispatches ?w2 w3 []" by simp
  with d2 have d3: "dispatches w w3 []"
    using dispatches_trans by fastforce
  have send: "dispatches w (sendAutoReply_mt E senderId x (pageAccessToken pageConfig) w3)
      (if truthy (pageAccessToken pageConfig) then [x] else [])" for x
    using dispatches_trans [OF d3 dispatches_sendAutoReply_mt] by simp
  show "fst (handle_messaging_mt E pageConfig messaging w) = None"
    by (simp add: h)
  show "dispatched (new_effects w (snd (handle_messaging_mt E pageConfig messaging w))) =
          (if truthy (pageAccessToken pageConfig) then [ai_response aiResult] else [])"
    if "truthy (ai_response aiResult)"
    using that send [of "ai_response aiResult"] by (simp add: h dispatches_new_effects)
  show "dispatched (new_effects w (snd (handle_messaging_mt E pageConfig messaging w))) =
             (if truthy (pageAccessToken pageConfig) then [fallback_reply] else []) \<and>
           type (hd (messageLog (snd (handle_messaging_mt E pageConfig messaging w)))) = ''ERROR'' \<and>
           data (hd (messageLog (snd (handle_messaging_mt E pageConfig messaging w)))) =
             JObj [(''msg'', ai_error aiResult)]"
    if "\<not> truthy (ai_response aiResult)" "truthy (ai_error aiResult)"
  proof -
    from dispatches_trans [OF send [of fallback_reply] dispatches_logMessage]
    have "dispatches w (logMessage (clock E) ''ERROR'' (JObj [(''msg'', ai_error aiResult)])
        (sendAutoReply_mt E senderId fallback_reply (pageAccessToken pageConfig) w3))
        (if truthy (pageAccessToken pageConfig) then [fallback_reply] else [])"
      by simp
    with that show ?thesis
      by (simp add: h dispatches_new_effects hd_messageLog_logMessage)
  qed
  show "dispatched (new_effects w (snd (handle_messaging_mt E pageConfig messaging w))) = []"
    if "\<not> truthy (ai_response aiResult)" "\<not> truthy (ai_error aiResult)"
    using that d3 by (simp add: h dispatches_new_effects)
qed

lemma reply_or_fallback_st:
  assumes "get_prop messaging ''sender'' = Inr sender" and "get_prop sender ''id'' = Inr senderId"
    and "js_prop (js_prop messaging ''message'') ''text'' = JStr t" and "t \<noteq> []"
    and "searchKnowledge (JStr t) (knowledge_dir E) = Inr kbContext"
    and "generateAIResponse_st E (JStr t) kbContext
           (emit (FsRead KnowledgeDir)
              (logMessage (clock E) ''MESSAGE''
                 (JObj [(''senderId'', senderId), (''text'', JStr t)]) w)) =
         (aiResult, w3)"
    and "string_or_falsy (c_pageAccessToken cfg)"
  shows "fst (handle_messaging_st E cfg messaging w) = None"
    and "truthy (ai_response aiResult) \<Longrightarrow>
           dispatched (new_effects w (snd (handle_messaging_st E cfg messaging w))) =
             (if usable_credential (c_pageAccessToken cfg) then [ai_response aiResult] else [])"
    and "\<not> truthy (ai_response aiResult) \<Longrightarrow> truthy (ai_error aiResult) \<Longrightarrow>
           dispatched (new_effects w (snd (handle_messaging_st E cfg messaging w))) =
             (if usable_credential (c_pageAccessToken cfg) then [fallback_reply] else []) \<and>
           type (hd (messageLog (snd (handle_messaging_st E cfg messaging w)))) = ''ERROR'' \<and>
           data (hd (messageLog (snd (handle_messaging_st E cfg messaging w)))) =
             JObj [(''msg'', ai_error aiResult)]"
    and "\<not> truthy (ai_response aiResult) \<Longrightarrow> \<not> truthy (ai_error aiResult) \<Longrightarrow>
           dispatched (new_effects w (snd (handle_messaging_st E cfg messaging w))) = []"
proof -
  let ?w1 = "logMessage (clock E) ''MESSAGE''
      (JObj [(''senderId'', senderId), (''text'', JStr t)]) w"
  let ?w2 = "emit (FsRead KnowledgeDir) ?w1"
  note h = handle_messaging_st_text [OF assms]
  have "dispatches w ?w1 []" by (rule dispatches_logMessage)
  moreover have "dispatches ?w1 ?w2 []" by (simp add: dispatches_emit)
  ultimately have d2: "dispatches w ?w2 []"
    using dispatches_trans by fastforce
  from dispatches_generateAIResponse_st [of ?w2 E "JStr t" kbContext] assms(6)
  have "dispatches ?w2 w3 []" by simp
  with d2 have d3: "dispatches w w3 []"
    using dispatches_trans by fastforce
  have send: "dispatches w (snd (sendAutoReply_st E senderId x (c_pageAccessToken cfg) w3))
      (if usable_credential (c_pageAccessToken cfg) then [x] else [])" for x
    using dispatches_trans [OF d3 dispatches_sendAutoReply_st [OF assms(7)]] by simp
  show "fst (handle_messaging_st E cfg messaging w) = None"
    by (simp add: h)
  show "dispatched (new_effects w (snd (handle_messaging_st E cfg messaging w))) =
          (if usable_credential (c_pageAccessToken cfg) then [ai_response aiResult] else [])"
    if "truthy (ai_response aiResult)"
    using that send [of "ai_response aiResult"] by (simp add: h dispatches_new_effects)
  show "dispatched (new_effects w (snd (handle_messaging_st E cfg messaging w))) =
             (if usable_credential (c_pageAccessToken cfg) then [fallback_reply] else []) \<and>
           type (hd (messageLog (snd (handle_messaging_st E cfg messaging w)))) = ''ERROR'' \<and>
           data (hd (messageLog (snd (handle_messaging_st E cfg messaging w)))) =
             JObj [(''msg'', ai_error aiResult)]"
    if "\<not> truthy (ai_response aiResult)" "truthy (ai_error aiResult)"
  proof -
    from dispatches_trans [OF send [of fallback_reply] dispatches_logMessage]
    have "dispatches w (logMessage (clock E) ''ERROR'' (JObj [(''msg'', ai_error aiResult)])
        (snd (sendAutoReply_st E senderId fallback_reply (c_pageAccessToken cfg) w3)))
        (if usable_credential (c_pageAccessToken cfg) then [fallback_reply] else [])"
      by simp
    with that show ?thesis
      by (simp add: h dispatches_new_effects hd_messageLog_logMessage)
  qed
  show "dispatched (new_effects w (snd (handle_messaging_st E cfg messaging w))) = []"
    if "\<not> truthy (ai_response aiResult)" "\<not> truthy (ai_error aiResult)"
    using that d3 by (simp add: h dispatches_new_effects)
qed

text \<open>
  C5.  For a messaging item with a readable sender and a non-empty text, in either
  server (single-tenant: with a stored credential that is a string): let \<open>aiResult\<close> be what
  the completion client returns for that text.  If it carries a response, the text
  dispatched to the user is exactly that response; if it carries an error instead, the
  text dispatched is the fixed fallback message and the most recent log entry is an
  \<open>ERROR\<close> entry with that error; otherwise nothing is dispatched.  Nothing else is ever
  dispatched, and nothing at all when the dispatcher refuses the credential.
\<close>

theorem C5_reply_or_fallback:
  assumes "get_prop messaging ''sender'' = Inr sender" and "get_prop sender ''id'' = Inr senderId"
    and "js_prop (js_prop messaging ''message'') ''text'' = JStr t" and "t \<noteq> []"
    and "searchKnowledge (JStr t) (knowledge_dir E) = Inr kbContext"
    and "string_or_falsy (c_pageAccessToken cfg)"
  shows
   "(let aiResult = fst (generateAIResponse_mt E (JStr t) kbContext (page_id pageConfig)
                      (emit (FsRead KnowledgeDir)
                         (logMessage (clock E) ''MESSAGE''
                            (JObj [(''page'', name pageConfig), (''senderId'', senderId),
                                   (''text'', JStr t)]) w)));
         r = handle_messaging_mt E pageConfig messaging w;
         sent = dispatched (new_effects w (snd r))
     in fst r = None \<and>
        (truthy (ai_response aiResult) \<longrightarrow>
           sent = (if truthy (pageAccessToken pageConfig) then [ai_response aiResult] else [])) \<and>
        (\<not> truthy (ai_response aiResult) \<and> truthy (ai_error aiResult) \<longrightarrow>
           sent = (if truthy (pageAccessToken pageConfig) then [fallback_reply] else []) \<and>
           type (hd (messageLog (snd r))) = ''ERROR'' \<and>
           data (hd (messageLog (snd r))) = JObj [(''msg'', ai_error aiResult)]) \<and>
        (\<not> truthy (ai_response aiResult) \<and> \<not> truthy (ai_error aiResult) \<longrightarrow> sent = [])) \<and>
    (let aiResult = fst (generateAIResponse_st E (JStr t) kbContext
                      (emit (FsRead KnowledgeDir)
                         (logMessage (clock E) ''MESSAGE''
                            (JObj [(''senderId'', senderId), (''text'', JStr t)]) w)));
         r = handle_messaging_st E cfg messaging w;
         sent = dispatched (new_effects w (snd r))
     in fst r = None \<and>
        (truthy (ai_response aiResult) \<longrightarrow>
           sent = (if usable_credential (c_pageAccessToken cfg) then [ai_response aiResult] else [])) \<and>
        (\<not> truthy (ai_response aiResult) \<and> truthy (ai_error aiResult) \<longrightarrow>
           sent = (if usable_credential (c_pageAccessToken cfg) then [fallback_reply] else []) \<and>
           type (hd (messageLog (snd r))) = ''ERROR'' \<and>
           data (hd (messageLog (snd r))) = JObj [(''msg'', ai_error aiResult)]) \<and>
        (\<not> truthy (ai_response aiResult) \<and> \<not> truthy (ai_error aiResult) \<longrightarrow> sent = []))"
proof -
  obtain a1 w3 where g1: "generateAIResponse_mt E (JStr t) kbContext (page_id pageConfig)
           (emit (FsRead KnowledgeDir)
              (logMessage (clock E) ''MESSAGE''
                 (JObj [(''page'', name pageConfig), (''senderId'', senderId), (''text'', JStr t)]) w)) =
         (a1, w3)"
    by (cases "generateAIResponse_mt E (JStr t) kbContext (page_id pageConfig)
           (emit (FsRead KnowledgeDir)
              (logMessage (clock E) ''MESSAGE''
                 (JObj [(''page'', name pageConfig), (''senderId'', senderId), (''text'', JStr t)]) w))")
  obtain a2 w4 where g2: "generateAIResponse_st E (JStr t) kbContext
           (emit (FsRead KnowledgeDir)
              (logMessage (clock E) ''MESSAGE''
                 (JObj [(''senderId'', senderId), (''text'', JStr t)]) w)) =
         (a2, w4)"
    by (cases "generateAIResponse_st E (JStr t) kbContext
           (emit (FsRead KnowledgeDir)
              (logMessage (clock E) ''MESSAGE''
                 (JObj [(''senderId'', senderId), (''text'', JStr t)]) w))")
  note mt = reply_or_fallback_mt [OF assms(1-5) g1]
  note st = reply_or_fallback_st [OF assms(1-5) g2 assms(6)]
  show ?thesis
    unfolding Let_def g1 g2 fst_conv
    using mt st by blast
qed
theorem C5_reply_or_fallback_witness:
  "get_prop (text_item ''refunds please'') ''sender'' = Inr (JObj [(''id'', JStr ''USER_1'')]) \<and>
   searchKnowledge (JStr ''refunds please'') (knowledge_dir (example_env (JStr ''sk-or-1'') (completion_ok ''Hi!''))) =
     Inr ''Refunds take 30 days'' \<and>
   dispatched (new_effects initial_world
      (snd (handle_messaging_mt (example_env (JStr ''sk-or-1'') (completion_ok ''Hi!'')) example_page
              (text_item ''refunds please'') initial_world))) = [JStr ''Hi!''] \<and>
   dispatched (new_effects initial_world
      (snd (handle_messaging_mt (example_env (JStr ''sk-or-1'') completion_rate_limited) example_page
              (text_item ''refunds please'') initial_world))) = [fallback_reply] \<and>
   data (hd (messageLog
      (snd (handle_messaging_mt (example_env (JStr ''sk-or-1'') completion_rate_limited) example_page
              (text_item ''refunds please'') initial_world)))) =
     JObj [(''msg'', JStr ''Rate limit exceeded'')] \<and>
   dispatched (new_effects initial_world
      (snd (handle_messaging_st (example_env (JStr ''sk-or-1'') (completion_ok ''Hi!''))
              (loadConfig (config_file (example_env (JStr ''sk-or-1'') (completion_ok ''Hi!''))))
              (text_item ''refunds please'') initial_world))) = [JStr ''Hi!''] \<and>
   dispatched (new_effects initial_world
      (snd (handle_messaging_st (example_env (JStr ''sk-or-1'') completion_rate_limited)
              (loadConfig (config_file (example_env (JStr ''sk-or-1'') completion_rate_limited)))
              (text_item ''refunds please'') initial_world))) = [fallback_reply]"
proof -
  let ?ok = "example_env (JStr ''sk-or-1'') (completion_ok ''Hi!'')"
  let ?ko = "example_env (JStr ''sk-or-1'') completion_rate_limited"
  let ?m = "text_item ''refunds please''"
  have sender: "get_prop ?m ''sender'' = Inr (JObj [(''id'', JStr ''USER_1'')])"
    by code_simp
  have sid: "get_prop (JObj [(''id'', JStr ''USER_1'')]) ''id'' = Inr (JStr ''USER_1'')"
    by code_simp
  have msg_text: "js_prop (js_prop ?m ''message'') ''text'' = JStr ''refunds please''"
    by code_simp
  have ne: "''refunds please'' \<noteq> []"
    by simp
  have kb_ok: "searchKnowledge (JStr ''refunds please'') (knowledge_dir ?ok) = Inr ''Refunds take 30 days''"
    by code_simp
  have kb_ko: "searchKnowledge (JStr ''refunds please'') (knowledge_dir ?ko) = Inr ''Refunds take 30 days''"
    by code_simp
  have tok_ok: "string_or_falsy (c_pageAccessToken (loadConfig (config_file ?ok)))"
    by code_simp
  have tok_ko: "string_or_falsy (c_pageAccessToken (loadConfig (config_file ?ko)))"
    by code_simp
  have usable: "usable_credential (c_pageAccessToken (loadConfig (config_file ?ok)))"
    "usable_credential (c_pageAccessToken (loadConfig (config_file ?ko)))"
    "truthy (pageAccessToken example_page)"
    by code_simp+
  have g_ok_mt: "fst (generateAIResponse_mt ?ok (JStr ''refunds please'') ''Refunds take 30 days''
      (page_id example_page)
      (emit (FsRead KnowledgeDir) (logMessage (clock ?ok) ''MESSAGE''
         (JObj [(''page'', name example_page), (''senderId'', JStr ''USER_1''),
                (''text'', JStr ''refunds please'')]) initial_world))) = ResultResponse (JStr ''Hi!'')"
    by code_simp
  have g_ko_mt: "fst (generateAIResponse_mt ?ko (JStr ''refunds please'') ''Refunds take 30 days''
      (page_id example_page)
      (emit (FsRead KnowledgeDir) (logMessage (clock ?ko) ''MESSAGE''
         (JObj [(''page'', name example_page), (''senderId'', JStr ''USER_1''),
                (''text'', JStr ''refunds please'')]) initial_world))) =
      ResultError (JStr ''Rate limit exceeded'')"
    by code_simp
  have g_ok_st: "fst (generateAIResponse_st ?ok (JStr ''refunds please'') ''Refunds take 30 days''
      (emit (FsRead KnowledgeDir) (logMessage (clock ?ok) ''MESSAGE''
         (JObj [(''senderId'', JStr ''USER_1''), (''text'', JStr ''refunds please'')])
         initial_world))) = ResultResponse (JStr ''Hi!'')"
    by code_simp
  have g_ko_st: "fst (generateAIResponse_st ?ko (JStr ''refunds please'') ''Refunds take 30 days''
      (emit (FsRead KnowledgeDir) (logMessage (clock ?ko) ''MESSAGE''
         (JObj [(''senderId'', JStr ''USER_1''), (''text'', JStr ''refunds please'')])
         initial_world))) = ResultError (JStr ''Rate limit exceeded'')"
    by code_simp
  note ok = C5_reply_or_fallback [OF sender sid msg_text ne kb_ok tok_ok, of example_page initial_world,
      unfolded Let_def g_ok_mt g_ok_st]
  note ko = C5_reply_or_fallback [OF sender sid msg_text ne kb_ko tok_ko, of example_page initial_world,
      unfolded Let_def g_ko_mt g_ko_st]
  from ok ko usable sender kb_ok show ?thesis
    by simp
qed

end
